theory Spec2Isabelle
  imports Complex_Main "HOL-Library.Multiset" "HOL-Library.Char_ord" "HOL-Library.List_Lexorder"
begin

section \<open>Values, records and exceptions of rankpvpn.py\<close>

text \<open>
  A server record is a Python dict from field names to values. The fields written by
  \<open>get_server_data\<close> are all strings; \<open>last_sync\<close>, \<open>delay\<close> and \<open>score\<close>,
  which \<open>filter\<close> and \<open>sort\<close> read, are numbers. Numbers are modelled as reals
  (floating-point rounding is outside the model).
\<close>

datatype pyval = S string | N real

type_synonym mirror = "string \<rightharpoonup> pyval"

text \<open>The exception classes the program raises, catches or lets through.\<close>

datatype exn =
    KeyError | TypeError | AttributeError | ValueError | ZeroDivisionError
  | OSError | FileNotFoundError | URLError | HTTPError | SocketTimeout
  | HTTPException | CalledProcessError | TimeoutExpired | ReError
  | ServerStatusError string

text \<open>\<open>except OSError\<close> (and its alias \<open>IOError\<close>) also catches the subclasses.\<close>

fun is_OSError :: "exn \<Rightarrow> bool" where
  "is_OSError OSError = True"
| "is_OSError FileNotFoundError = True"
| "is_OSError URLError = True"
| "is_OSError HTTPError = True"
| "is_OSError SocketTimeout = True"
| "is_OSError _ = False"

section \<open>get_country_code\<close>

text \<open>
  \<open>pycountry.countries.get(field=value).alpha_2\<close> is a library call: the database is a
  parameter giving, for a field and a value, either the two-letter code of the entry
  found or the exception the lookup raises. The source catches \<open>KeyError\<close> only.
\<close>

datatype country_field = Name | CommonName | OfficialName

type_synonym countries_db = "country_field \<Rightarrow> string \<Rightarrow> exn + string"

definition get_country_code :: "countries_db \<Rightarrow> string \<Rightarrow> exn + string" where
  "get_country_code db country =
     (case db Name country of
        Inr code \<Rightarrow> Inr code
      | Inl e1 \<Rightarrow>
          if e1 \<noteq> KeyError then Inl e1
          else (case db CommonName country of
            Inr code \<Rightarrow> Inr code
          | Inl e2 \<Rightarrow>
              if e2 \<noteq> KeyError then Inl e2
              else (case db OfficialName country of
                Inr code \<Rightarrow> Inr code
              | Inl e3 \<Rightarrow>
                  if e3 \<noteq> KeyError then Inl e3
                  else if country = ''Russia'' then Inr ''RU''
                  else if country = ''South Korea'' then Inr ''KR''
                  else if country = ''USA'' then Inr ''US''
                  else Inr ''ERROR'')))"

text \<open>The database contract the source is written against: a miss raises \<open>KeyError\<close>,
  a hit carries a non-empty code.\<close>

definition db_contract :: "countries_db \<Rightarrow> bool" where
  "db_contract db \<longleftrightarrow>
     (\<forall>f c e. db f c = Inl e \<longrightarrow> e = KeyError) \<and> (\<forall>f c code. db f c = Inr code \<longrightarrow> code \<noteq> [])"

text \<open>The resolution chain, written as the ordered lookup the claim describes.\<close>

definition alias_table :: "string \<rightharpoonup> string" where
  "alias_table = [''Russia'' \<mapsto> ''RU'', ''South Korea'' \<mapsto> ''KR'', ''USA'' \<mapsto> ''US'']"

definition resolve_chain :: "countries_db \<Rightarrow> string \<Rightarrow> string" where
  "resolve_chain db country =
     (case db Name country of Inr c \<Rightarrow> c | Inl _ \<Rightarrow>
      (case db CommonName country of Inr c \<Rightarrow> c | Inl _ \<Rightarrow>
       (case db OfficialName country of Inr c \<Rightarrow> c | Inl _ \<Rightarrow>
        (case alias_table country of Some c \<Rightarrow> c | None \<Rightarrow> ''ERROR''))))"

text \<open>A small database used to run the definitions.\<close>

definition demo_db :: countries_db where
  "demo_db f c =
     (if f = Name \<and> c = ''Sweden'' then Inr ''SE''
      else if f = CommonName \<and> c = ''Bolivia'' then Inr ''BO''
      else Inl KeyError)"

section \<open>get_server_data\<close>

text \<open>
  The HTML parser is a library: its result is the input here. \<open>thead\<close> holds the texts of
  the \<open>th\<close> cells of the table head (\<open>None\<close> when the table has no head), \<open>trs\<close> holds,
  for every \<open>tr\<close> of the table, the texts of its \<open>td\<close> cells.
\<close>

record html_table =
  thead :: "string list option"
  trs :: "string list list"

record snapshot =
  title :: string
  version :: nat
  headers :: "string list"
  last_check :: string
  total :: nat
  servers :: "mirror list"

definition remove_newlines :: "string \<Rightarrow> string" where
  "remove_newlines s = filter (\<lambda>c. c \<noteq> CHR 0x0A) s"

fun split_on :: "char \<Rightarrow> string \<Rightarrow> string list" where
  "split_on c [] = [[]]"
| "split_on c (x # xs) =
     (if x = c then [] # split_on c xs
      else (case split_on c xs of w # ws \<Rightarrow> (x # w) # ws | [] \<Rightarrow> [[x]]))"

text \<open>The characters \<open>str.strip()\<close> removes, among the 256 characters a \<open>char\<close> has:
  those for which \<open>str.isspace\<close> holds, U+0085 and U+00A0 included.\<close>

definition is_space :: "char \<Rightarrow> bool" where
  "is_space c \<longleftrightarrow> c \<in> set [CHR 0x09, CHR 0x0A, CHR 0x0B, CHR 0x0C, CHR 0x0D,
                           CHR 0x1C, CHR 0x1D, CHR 0x1E, CHR 0x1F, CHR 0x20,
                           CHR 0x85, CHR 0xA0]"

definition strip :: "string \<Rightarrow> string" where
  "strip s = rev (dropWhile is_space (rev (dropWhile is_space s)))"

definition cell :: "string \<Rightarrow> string" where
  "cell s = strip (remove_newlines s)"

text \<open>The body of the loop over the rows: a row with exactly six cells gives a record,
  any other row gives nothing; an exception of the country lookup ends the function.\<close>

fun row_records :: "countries_db \<Rightarrow> string list list \<Rightarrow> exn + mirror list" where
  "row_records db [] = Inr []"
| "row_records db (tds # rows) =
     (if length tds = 6 then
        (let tmp = split_on CHR ''-'' (remove_newlines (tds ! 0));
             country = strip (tmp ! 0);
             city = (if length tmp > 1 then strip (tmp ! 1) else [])
         in case get_country_code db country of
              Inl e \<Rightarrow> Inl e
            | Inr code \<Rightarrow>
               (case row_records db rows of
                  Inl e \<Rightarrow> Inl e
                | Inr data \<Rightarrow> Inr (map_of
                    [(''country'', S country),
                     (''country_code'', S code),
                     (''city'', S city),
                     (''url'', S (cell (tds ! 1))),
                     (''port_tap'', S (cell (tds ! 2))),
                     (''port_tun'', S (cell (tds ! 3))),
                     (''proxy_socks'', S (cell (tds ! 4))),
                     (''proxy_http'', S (cell (tds ! 5)))] # data)))
      else row_records db rows)"

text \<open>\<open>soup.find\<close> gives \<open>None\<close> when the page has no such table, and so does
  \<open>table.find("thead")\<close>; the attribute access on \<open>None\<close> raises \<open>AttributeError\<close>.
  \<open>utcnow\<close> is the clock's text at the call.\<close>

definition get_server_data :: "countries_db \<Rightarrow> string \<Rightarrow> html_table option \<Rightarrow> exn + snapshot" where
  "get_server_data db utcnow page =
     (case page of
        None \<Rightarrow> Inl AttributeError
      | Some table \<Rightarrow>
         (case thead table of
            None \<Rightarrow> Inl AttributeError
          | Some ths \<Rightarrow>
             (case row_records db (trs table) of
                Inl e \<Rightarrow> Inl e
              | Inr data \<Rightarrow> Inr
                  \<lparr> title = ''PrivateVPN Server list'',
                    version = 1,
                    headers = map remove_newlines ths,
                    last_check = utcnow,
                    total = length (trs table),
                    servers = data \<rparr>)))"

text \<open>A page with a head row and one server row.\<close>

definition demo_page :: html_table where
  "demo_page =
     \<lparr> thead = Some [''Country'', ''Server address'', ''Port OpenVPN-TAP-UDP'',
                     ''OpenVPN-TUN-UDP/TCP'', ''Socks5 Proxy'', ''HTTP Proxy''],
       trs = [[], [''Sweden - Stockholm'', ''se-sto.pvdata.host'', ''1194'', ''1195'',
                   ''1080'', ''8080'']] \<rparr>"

section \<open>The store: list objects and the held snapshot\<close>

type_synonym ref = nat

record store =
  cells :: "ref \<Rightarrow> mirror list"
  next_ref :: ref
  servers_ref :: ref
  now :: real


definition get_mirrors :: "store \<Rightarrow> ref" where
  "get_mirrors \<sigma> = servers_ref \<sigma>"

section \<open>filter\<close>

record pylib =
  str_upper :: "string \<Rightarrow> string"
  re_search :: "string \<Rightarrow> pyval \<Rightarrow> exn + bool"

record criteria =
  countries :: "string list option"
  include_re :: "string list option"
  exclude_re :: "string list option"
  age :: "real option"
  protocols :: "string list option"

definition getitem :: "mirror \<Rightarrow> string \<Rightarrow> exn + pyval" where
  "getitem m k = (case m k of None \<Rightarrow> Inl KeyError | Some v \<Rightarrow> Inr v)"

definition upper_in :: "pylib \<Rightarrow> mirror \<Rightarrow> string \<Rightarrow> string list \<Rightarrow> exn + bool" where
  "upper_in lib m k uc =
     (case getitem m k of
        Inl e \<Rightarrow> Inl e
      | Inr (N x) \<Rightarrow> Inl AttributeError
      | Inr (S s) \<Rightarrow> Inr (str_upper lib s \<in> set uc))"

definition country_stage :: "pylib \<Rightarrow> criteria \<Rightarrow> mirror \<Rightarrow> exn + bool" where
  "country_stage lib c m =
     (case countries c of
        None \<Rightarrow> Inr True
      | Some cs \<Rightarrow>
          if cs = [] then Inr True
          else (let uc_countries = map (str_upper lib) cs in
            case upper_in lib m ''country'' uc_countries of
              Inl e \<Rightarrow> Inl e
            | Inr True \<Rightarrow> Inr True
            | Inr False \<Rightarrow> upper_in lib m ''country_code'' uc_countries))"

definition protocol_stage :: "criteria \<Rightarrow> mirror \<Rightarrow> exn + bool" where
  "protocol_stage c m =
     (case protocols c of
        None \<Rightarrow> Inr True
      | Some ps \<Rightarrow>
          if ps = [] then Inr True
          else (case getitem m ''protocol'' of
                  Inl e \<Rightarrow> Inl e
                | Inr v \<Rightarrow> Inr (v \<in> set (map S ps))))"

fun search_any :: "pylib \<Rightarrow> mirror \<Rightarrow> string list \<Rightarrow> exn + bool" where
  "search_any lib m [] = Inr False"
| "search_any lib m (regex # rest) =
     (case getitem m ''url'' of
        Inl e \<Rightarrow> Inl e
      | Inr u \<Rightarrow>
         (case re_search lib regex u of
            Inl e \<Rightarrow> Inl e
          | Inr True \<Rightarrow> Inr True
          | Inr False \<Rightarrow> search_any lib m rest))"

definition include_stage :: "pylib \<Rightarrow> criteria \<Rightarrow> mirror \<Rightarrow> exn + bool" where
  "include_stage lib c m =
     (case include_re c of
        None \<Rightarrow> Inr True
      | Some pats \<Rightarrow> if pats = [] then Inr True else search_any lib m pats)"

definition exclude_stage :: "pylib \<Rightarrow> criteria \<Rightarrow> mirror \<Rightarrow> exn + bool" where
  "exclude_stage lib c m =
     (case exclude_re c of
        None \<Rightarrow> Inr True
      | Some pats \<Rightarrow>
          if pats = [] then Inr True
          else (case search_any lib m pats of
                  Inl e \<Rightarrow> Inl e
                | Inr discard \<Rightarrow> Inr (\<not> discard)))"

definition age_stage :: "criteria \<Rightarrow> real \<Rightarrow> mirror \<Rightarrow> exn + bool" where
  "age_stage c t m =
     (case age c of
        None \<Rightarrow> Inr True
      | Some a \<Rightarrow>
          if a = 0 then Inr True
          else (case getitem m ''last_sync'' of
                  Inl e \<Rightarrow> Inl e
                | Inr (S s) \<Rightarrow> Inl TypeError
                | Inr (N last_sync) \<Rightarrow> Inr (\<not> t > a * 60 ^ 2 + last_sync)))"

definition and_then :: "exn + bool \<Rightarrow> exn + bool \<Rightarrow> exn + bool" where
  "and_then a b = (case a of Inl e \<Rightarrow> Inl e | Inr False \<Rightarrow> Inr False | Inr True \<Rightarrow> b)"

definition keep :: "pylib \<Rightarrow> criteria \<Rightarrow> real \<Rightarrow> mirror \<Rightarrow> exn + bool" where
  "keep lib c t m =
     and_then (country_stage lib c m)
    (and_then (protocol_stage c m)
    (and_then (include_stage lib c m)
    (and_then (exclude_stage lib c m)
              (age_stage c t m))))"

datatype gen_state = Created | Suspended ref real nat | Finished

record generator =
  g_crit :: criteria
  g_mirrors :: "ref option"
  g_state :: gen_state

definition filter_py :: "criteria \<Rightarrow> ref option \<Rightarrow> generator" where
  "filter_py c mirrors = \<lparr> g_crit = c, g_mirrors = mirrors, g_state = Created \<rparr>"

fun scan :: "pylib \<Rightarrow> criteria \<Rightarrow> real \<Rightarrow> mirror list \<Rightarrow> nat \<Rightarrow> exn + (mirror \<times> nat) option" where
  "scan lib c t [] i = Inr None"
| "scan lib c t (m # ms) i =
     (case keep lib c t m of
        Inl e \<Rightarrow> Inl e
      | Inr True \<Rightarrow> Inr (Some (m, Suc i))
      | Inr False \<Rightarrow> scan lib c t ms (Suc i))"

definition resume :: "pylib \<Rightarrow> store \<Rightarrow> generator \<Rightarrow> ref \<Rightarrow> real \<Rightarrow> nat
    \<Rightarrow> (exn + mirror option) \<times> generator" where
  "resume lib \<sigma> g r t i =
     (case scan lib (g_crit g) t (drop i (cells \<sigma> r)) i of
        Inl e \<Rightarrow> (Inl e, g\<lparr>g_state := Finished\<rparr>)
      | Inr None \<Rightarrow> (Inr None, g\<lparr>g_state := Finished\<rparr>)
      | Inr (Some (m, j)) \<Rightarrow> (Inr (Some m), g\<lparr>g_state := Suspended r t j\<rparr>))"

definition gen_next :: "pylib \<Rightarrow> store \<Rightarrow> generator \<Rightarrow> (exn + mirror option) \<times> generator" where
  "gen_next lib \<sigma> g =
     (case g_state g of
        Finished \<Rightarrow> (Inr None, g)
      | Created \<Rightarrow>
          resume lib \<sigma> g (case g_mirrors g of None \<Rightarrow> get_mirrors \<sigma> | Some r \<Rightarrow> r) (now \<sigma>) 0
      | Suspended r t i \<Rightarrow> resume lib \<sigma> g r t i)"

definition fuel :: "store \<Rightarrow> generator \<Rightarrow> nat" where
  "fuel \<sigma> g =
     (case g_state g of
        Finished \<Rightarrow> 0
      | Created \<Rightarrow> Suc (Suc (length (cells \<sigma> (case g_mirrors g of None \<Rightarrow> get_mirrors \<sigma> | Some r \<Rightarrow> r))))
      | Suspended r t i \<Rightarrow> Suc (length (cells \<sigma> r) - i))"

lemma scan_pos: "scan lib c t ms i = Inr (Some (m, j)) \<Longrightarrow> i < j \<and> j \<le> i + length ms"
proof (induction ms arbitrary: i)
  case Nil
  then show ?case by simp
next
  case (Cons a ms)
  then show ?case by (fastforce split: sum.splits bool.splits)
qed

lemma gen_next_fuel:
  "gen_next lib \<sigma> g = (Inr (Some m), g') \<Longrightarrow> fuel \<sigma> g' < fuel \<sigma> g"
  by (auto simp: gen_next_def resume_def fuel_def
      split: gen_state.splits sum.splits option.splits dest!: scan_pos)

function iterate :: "pylib \<Rightarrow> store \<Rightarrow> generator \<Rightarrow> mirror list \<times> exn option \<times> generator" where
  "iterate lib \<sigma> g =
     (case gen_next lib \<sigma> g of
        (Inl e, g') \<Rightarrow> ([], Some e, g')
      | (Inr None, g') \<Rightarrow> ([], None, g')
      | (Inr (Some m), g') \<Rightarrow>
          (case iterate lib \<sigma> g' of (out, status, g'') \<Rightarrow> (m # out, status, g'')))"
  by pat_completeness auto
termination
  by (relation "measure (\<lambda>(lib, \<sigma>, g). fuel \<sigma> g)") (auto dest: gen_next_fuel [OF sym])

declare iterate.simps [simp del]

definition source_list :: "store \<Rightarrow> ref option \<Rightarrow> mirror list" where
  "source_list \<sigma> mirrors = cells \<sigma> (case mirrors of None \<Rightarrow> get_mirrors \<sigma> | Some r \<Rightarrow> r)"

text \<open>The records one full pass emits and how the pass ends, as a function of the list
  that is left; \<open>iterate\<close> on a generator suspended at that point computes the same.\<close>

fun drain :: "pylib \<Rightarrow> criteria \<Rightarrow> real \<Rightarrow> mirror list \<Rightarrow> mirror list \<times> exn option" where
  "drain lib c t [] = ([], None)"
| "drain lib c t (m # ms) =
     (case keep lib c t m of
        Inl e \<Rightarrow> ([], Some e)
      | Inr True \<Rightarrow> (m # fst (drain lib c t ms), snd (drain lib c t ms))
      | Inr False \<Rightarrow> drain lib c t ms)"

text \<open>The criteria as the specification words them: a criterion that is absent (or an
  empty list, or the age 0) asks nothing.\<close>

definition meets_countries :: "pylib \<Rightarrow> criteria \<Rightarrow> mirror \<Rightarrow> bool" where
  "meets_countries lib c m =
     (case countries c of
        None \<Rightarrow> True
      | Some cs \<Rightarrow> cs = []
          \<or> (case m ''country'' of
                Some (S s) \<Rightarrow> str_upper lib s \<in> set (map (str_upper lib) cs) | _ \<Rightarrow> False)
          \<or> (case m ''country_code'' of
                Some (S s) \<Rightarrow> str_upper lib s \<in> set (map (str_upper lib) cs) | _ \<Rightarrow> False))"

definition meets_protocols :: "criteria \<Rightarrow> mirror \<Rightarrow> bool" where
  "meets_protocols c m =
     (case protocols c of
        None \<Rightarrow> True
      | Some ps \<Rightarrow> ps = [] \<or> (case m ''protocol'' of Some (S p) \<Rightarrow> p \<in> set ps | _ \<Rightarrow> False))"

definition meets_include :: "pylib \<Rightarrow> criteria \<Rightarrow> mirror \<Rightarrow> bool" where
  "meets_include lib c m =
     (case include_re c of
        None \<Rightarrow> True
      | Some pats \<Rightarrow> pats = []
          \<or> (case m ''url'' of
                Some u \<Rightarrow> list_ex (\<lambda>p. re_search lib p u = Inr True) pats | None \<Rightarrow> False))"

definition meets_exclude :: "pylib \<Rightarrow> criteria \<Rightarrow> mirror \<Rightarrow> bool" where
  "meets_exclude lib c m =
     (case exclude_re c of
        None \<Rightarrow> True
      | Some pats \<Rightarrow> pats = []
          \<or> (case m ''url'' of
                Some u \<Rightarrow> list_all (\<lambda>p. re_search lib p u \<noteq> Inr True) pats | None \<Rightarrow> False))"

definition meets_age :: "criteria \<Rightarrow> real \<Rightarrow> mirror \<Rightarrow> bool" where
  "meets_age c t m =
     (case age c of
        None \<Rightarrow> True
      | Some a \<Rightarrow> a = 0
          \<or> (case m ''last_sync'' of Some (N last_sync) \<Rightarrow> t - last_sync \<le> a * 3600 | _ \<Rightarrow> False))"

definition meets_all :: "pylib \<Rightarrow> criteria \<Rightarrow> real \<Rightarrow> mirror \<Rightarrow> bool" where
  "meets_all lib c t m \<longleftrightarrow>
     meets_countries lib c m \<and> meets_protocols c m \<and> meets_include lib c m
     \<and> meets_exclude lib c m \<and> meets_age c t m"


text \<open>A library and a store used to run the definitions: upper-casing of ASCII letters,
  and pattern search for patterns without metacharacters (substring search).\<close>

definition upper_char :: "char \<Rightarrow> char" where
  "upper_char ch =
     (if CHR ''a'' \<le> ch \<and> ch \<le> CHR ''z''
      then (case ch of Char b0 b1 b2 b3 b4 b5 b6 b7 \<Rightarrow> Char b0 b1 b2 b3 b4 False b6 b7)
      else ch)"

fun contains :: "string \<Rightarrow> string \<Rightarrow> bool" where
  "contains pat [] = (pat = [])"
| "contains pat (ch # rest) = (take (length pat) (ch # rest) = pat \<or> contains pat rest)"

definition demo_lib :: pylib where
  "demo_lib = \<lparr> str_upper = map upper_char,
                re_search = (\<lambda>pat v. case v of S u \<Rightarrow> Inr (contains pat u) | N x \<Rightarrow> Inl TypeError) \<rparr>"

definition srv_se :: mirror where
  "srv_se = map_of [(''country'', S ''Sweden''), (''country_code'', S ''SE''),
                    (''city'', S ''Stockholm''), (''url'', S ''se-sto.pvdata.host'')]"

definition srv_de :: mirror where
  "srv_de = map_of [(''country'', S ''Germany''), (''country_code'', S ''DE''),
                    (''city'', S ''Frankfurt''), (''url'', S ''de-fra.pvdata.host''),
                    (''protocol'', S ''http''), (''last_sync'', N 1000)]"

definition no_criteria :: criteria where
  "no_criteria = \<lparr> countries = None, include_re = None, exclude_re = None, age = None,
                   protocols = None \<rparr>"

definition demo_store :: store where
  "demo_store = \<lparr> cells = (\<lambda>r. []) (0 := [srv_se, srv_de]), next_ref = 1, servers_ref = 0,
                  now = 2000 \<rparr>"


definition only_sweden :: criteria where
  "only_sweden = no_criteria\<lparr>countries := Some [''se'']\<rparr>"

definition only_http :: criteria where
  "only_http = no_criteria\<lparr>protocols := Some [''http'']\<rparr>"

definition last_hour :: criteria where
  "last_hour = no_criteria\<lparr>age := Some 1\<rparr>"


section \<open>rate: the probe of one URL\<close>

text \<open>
  The worker's effects are inputs: what the ping, the URL parser, the transfer tool, the
  file system, the HTTP client and the clock do for one URL. \<open>elapsed\<close> is the value of
  \<open>time.time() - t0\<close> where the source takes it. A duration is a float in the source and
  may be NaN.
\<close>

datatype dur = NaN | Secs real

record probe =
  ping :: "exn option"
  scheme :: "exn + string"
  tmpdir :: "exn option"
  check_call :: "exn option"
  getsize :: "exn + nat"
  request :: "exn option"
  urlopen :: "exn option"
  read :: "exn + nat"
  elapsed :: real

definition caught_rsync :: "exn \<Rightarrow> bool" where
  "caught_rsync e \<longleftrightarrow> e = CalledProcessError \<or> e = TimeoutExpired \<or> e = FileNotFoundError"

definition caught_http :: "exn \<Rightarrow> bool" where
  "caught_http e \<longleftrightarrow> is_OSError e \<or> e = HTTPError \<or> e = HTTPException"

text \<open>An exception inside a \<open>try\<close>: a listed class is dropped (\<open>pass\<close>) and the values
  assigned so far stay, any other class leaves the worker.\<close>

definition handled :: "(exn \<Rightarrow> bool) \<Rightarrow> exn \<Rightarrow> real \<times> dur \<Rightarrow> exn + real \<times> dur" where
  "handled caught e vars = (if caught e then Inr vars else Inl e)"

definition divide :: "nat \<Rightarrow> real \<Rightarrow> exn + real" where
  "divide sz dt = (if dt = 0 then Inl ZeroDivisionError else Inr (real sz / dt))"

definition rsync_try :: "probe \<Rightarrow> exn + real \<times> dur" where
  "rsync_try p =
     (case tmpdir p of
        Some e \<Rightarrow> handled caught_rsync e (0, NaN)
      | None \<Rightarrow>
         (case check_call p of
            Some e \<Rightarrow> handled caught_rsync e (0, NaN)
          | None \<Rightarrow>
             (let dt = elapsed p in
              case getsize p of
                Inl e \<Rightarrow> handled caught_rsync e (0, Secs dt)
              | Inr sz \<Rightarrow>
                 (case divide sz dt of
                    Inl e \<Rightarrow> handled caught_rsync e (0, Secs dt)
                  | Inr rate \<Rightarrow> Inr (rate, Secs dt)))))"

definition http_try :: "probe \<Rightarrow> exn + real \<times> dur" where
  "http_try p =
     (case urlopen p of
        Some e \<Rightarrow> handled caught_http e (0, NaN)
      | None \<Rightarrow>
         (case read p of
            Inl e \<Rightarrow> handled caught_http e (0, NaN)
          | Inr sz \<Rightarrow>
             (let dt = elapsed p in
              case divide sz dt of
                Inl e \<Rightarrow> handled caught_http e (0, Secs dt)
              | Inr rate \<Rightarrow> Inr (rate, Secs dt))))"

text \<open>One pass of the worker's loop body: the triple put on \<open>q_out\<close>, or the exception
  that leaves the worker thread (then nothing is put and \<open>task_done\<close> is not called).\<close>

definition worker :: "probe \<Rightarrow> string \<Rightarrow> exn + string \<times> real \<times> dur" where
  "worker p url =
     (case ping p of
        Some e \<Rightarrow> Inl e
      | None \<Rightarrow>
         (case scheme p of
            Inl e \<Rightarrow> Inl e
          | Inr sch \<Rightarrow>
             (case (if sch = ''rsync'' then rsync_try p
                    else (case request p of Some e \<Rightarrow> Inl e | None \<Rightarrow> http_try p)) of
                Inl e \<Rightarrow> Inl e
              | Inr (rate, dt) \<Rightarrow> Inr (url, rate, dt))))"

definition http_probe :: "exn + nat \<Rightarrow> real \<Rightarrow> probe" where
  "http_probe r dt = \<lparr> ping = None, scheme = Inr ''https'', tmpdir = None, check_call = None,
                        getsize = Inl FileNotFoundError, request = None, urlopen = None,
                        read = r, elapsed = dt \<rparr>"


section \<open>rate: collecting and merging\<close>

text \<open>
  The driver below is the part of \<open>rate\<close> that runs in the calling thread. The worker
  threads enter through \<open>arrivals\<close>: the triples on \<open>q_out\<close>, in the order in which they
  were put, once \<open>q_in.join()\<close> has returned. \<open>q_out.get()\<close> blocks on an empty queue:
  a driver that never returns is the value \<open>None\<close>.
\<close>

definition url_of :: "mirror \<Rightarrow> exn + string" where
  "url_of m = (case m ''url'' of None \<Rightarrow> Inl KeyError | Some (N x) \<Rightarrow> Inl TypeError
               | Some (S u) \<Rightarrow> Inr u)"

fun urls_of :: "mirror list \<Rightarrow> exn + string list" where
  "urls_of [] = Inr []"
| "urls_of (m # ms) =
     (case url_of m of
        Inl e \<Rightarrow> Inl e
      | Inr u \<Rightarrow> (case urls_of ms of Inl e \<Rightarrow> Inl e | Inr us \<Rightarrow> Inr (u # us)))"

definition collect :: "(string \<times> real \<times> dur) list \<Rightarrow> (string \<rightharpoonup> real)" where
  "collect arrivals = fold (\<lambda>(url, rate, dt) rates. rates(url \<mapsto> rate)) arrivals Map.empty"

definition rate_of :: "(string \<rightharpoonup> real) \<Rightarrow> mirror \<Rightarrow> exn + real" where
  "rate_of rates m =
     (case m ''url'' of
        None \<Rightarrow> Inl KeyError
      | Some (N x) \<Rightarrow> Inl KeyError
      | Some (S u) \<Rightarrow> (case rates u of None \<Rightarrow> Inl KeyError | Some r \<Rightarrow> Inr r))"

text \<open>A list comprehension \<open>[m for m in mirrors if cond(rates[m['url']])]\<close>.\<close>

fun comprehension :: "(real \<Rightarrow> bool) \<Rightarrow> (string \<rightharpoonup> real) \<Rightarrow> mirror list \<Rightarrow> exn + mirror list" where
  "comprehension cond rates [] = Inr []"
| "comprehension cond rates (m # ms) =
     (case rate_of rates m of
        Inl e \<Rightarrow> Inl e
      | Inr r \<Rightarrow>
         (case comprehension cond rates ms of
            Inl e \<Rightarrow> Inl e
          | Inr out \<Rightarrow> Inr (if cond r then m # out else out)))"

definition rate_key :: "(string \<rightharpoonup> real) \<Rightarrow> mirror \<Rightarrow> real" where
  "rate_key rates m = (case rate_of rates m of Inr r \<Rightarrow> r | Inl e \<Rightarrow> 0)"

text \<open>\<open>list.sort(key=..., reverse=True)\<close> keeps the input order of equal keys: the list
  is reversed, sorted stably in ascending order and reversed again.\<close>

definition sort_reverse :: "('a \<Rightarrow> 'k::linorder) \<Rightarrow> 'a list \<Rightarrow> 'a list" where
  "sort_reverse key xs = rev (sort_key key (rev xs))"

definition rate :: "mirror list \<Rightarrow> (string \<times> real \<times> dur) list \<Rightarrow> (exn + mirror list) option" where
  "rate mirrors arrivals =
     (if mirrors = [] then Some (Inr mirrors)
      else (case urls_of mirrors of
        Inl e \<Rightarrow> Some (Inl e)
      | Inr urls \<Rightarrow>
          if length arrivals < length mirrors then None
          else (let rates = collect (take (length mirrors) arrivals) in
            case comprehension (\<lambda>r. r > 0) rates mirrors of
              Inl e \<Rightarrow> Some (Inl e)
            | Inr rated_mirrors \<Rightarrow>
               (case comprehension (\<lambda>r. r = 0) rates mirrors of
                  Inl e \<Rightarrow> Some (Inl e)
                | Inr unrated \<Rightarrow>
                    Some (Inr (sort_reverse (rate_key rates) rated_mirrors @ unrated))))))"

definition url_str :: "mirror \<Rightarrow> string" where
  "url_str m = (case m ''url'' of Some (S u) \<Rightarrow> u | _ \<Rightarrow> [])"

definition pair_of :: "string \<times> real \<times> dur \<Rightarrow> string \<times> real" where
  "pair_of a = (fst a, fst (snd a))"

definition srv :: "string \<Rightarrow> mirror" where
  "srv u = map_of [(''url'', S u)]"

definition demo_rates :: "string \<Rightarrow> real" where
  "demo_rates u = (if u = ''a'' then 500 else if u = ''c'' then 1000 else 0)"

definition demo_arrivals :: "(string \<times> real \<times> dur) list" where
  "demo_arrivals = [(''c'', 1000, Secs 1), (''b'', 0, NaN), (''a'', 500, Secs 2)]"

section \<open>rate: the worker threads\<close>

text \<open>
  The items of \<open>q_in\<close> are the URLs in list order; \<open>env i\<close> is what the ping, the
  transfer and the clock do while a worker handles item \<open>i\<close>. A worker that leaves its loop
  body with an exception puts nothing on \<open>q_out\<close> and never calls \<open>q_in.task_done()\<close> for
  its item, so \<open>q_in.join()\<close> never returns: that is the value \<open>None\<close>. When every item is
  handled, \<open>q_out\<close> holds one triple per item; \<open>order\<close> lists the items in the order in
  which their triples were put (a permutation of the item numbers, decided by the
  scheduling of the threads).
\<close>

definition probe_results :: "(nat \<Rightarrow> probe) \<Rightarrow> string list \<Rightarrow> (exn + string \<times> real \<times> dur) list" where
  "probe_results env urls = map (\<lambda>i. worker (env i) (urls ! i)) [0..<length urls]"

fun posted :: "(exn + 'a) list \<Rightarrow> 'a list option" where
  "posted [] = Some []"
| "posted (Inl e # rs) = None"
| "posted (Inr a # rs) = (case posted rs of None \<Rightarrow> None | Some as \<Rightarrow> Some (a # as))"

definition q_out_after_join :: "(nat \<Rightarrow> probe) \<Rightarrow> nat list \<Rightarrow> string list
    \<Rightarrow> (string \<times> real \<times> dur) list option" where
  "q_out_after_join env order urls =
     (case posted (probe_results env urls) of
        None \<Rightarrow> None
      | Some triples \<Rightarrow> Some (map (\<lambda>i. triples ! i) order))"

text \<open>\<open>rate\<close> with its worker threads: the driver \<open>rate\<close> above on the triples the
  workers put.\<close>

definition rate_threads :: "(nat \<Rightarrow> probe) \<Rightarrow> nat list \<Rightarrow> mirror list \<Rightarrow> (exn + mirror list) option" where
  "rate_threads env order mirrors =
     (if mirrors = [] then Some (Inr mirrors)
      else (case urls_of mirrors of
        Inl e \<Rightarrow> Some (Inl e)
      | Inr urls \<Rightarrow>
         (case q_out_after_join env order urls of
            None \<Rightarrow> None
          | Some arrivals \<Rightarrow> rate mirrors arrivals)))"

text \<open>The same effects for every item.\<close>

definition every :: "probe \<Rightarrow> nat \<Rightarrow> probe" where
  "every p i = p"

definition ping_fails :: probe where
  "ping_fails = (http_probe (Inr 1024) 2)\<lparr>ping := Some OSError\<rparr>"



section \<open>sort\<close>


















section \<open>retrieve and get_obj\<close>

text \<open>
  The values \<open>json_obj\<close> takes: \<open>None\<close> (set at the start of \<open>retrieve\<close>, or a cache
  file holding \<open>null\<close>), the empty dict of \<open>__init__\<close>, or a snapshot. The first two are
  falsy.
\<close>

datatype json = PyNone | EmptyDict | Snapshot snapshot

fun truthy :: "json \<Rightarrow> bool" where
  "truthy (Snapshot s) = True"
| "truthy j = False"

text \<open>The fields of a \<open>ServerStatus\<close> object that \<open>retrieve\<close> reads or writes.\<close>

record server_status =
  refresh_interval :: real
  json_mtime :: real
  json_obj :: json
  cache_timeout :: real

text \<open>
  What the file system, the clock and the two calls of \<open>get_server_data\<close> do during one
  call of \<open>retrieve\<close>. \<open>load\<close> is \<open>open\<close> and \<open>json.load\<close> on the cache file, \<open>write_file\<close> is \<open>open(cache_file, 'w')\<close> and \<open>f.write\<close>. A
  missing file is \<open>FileNotFoundError\<close>, the \<open>OSError\<close> whose \<open>errno\<close> is \<open>ENOENT\<close>.
\<close>

record retrieve_env =
  getmtime :: "exn + real"
  time_check :: real
  load :: "exn + json"
  first_fetch :: "exn + snapshot"
  second_fetch :: "exn + snapshot"
  time_fetch :: real
  write_file :: "exn option"

definition load_cache :: "retrieve_env \<Rightarrow> server_status \<Rightarrow> exn + server_status \<times> bool" where
  "load_cache env self =
     (if cache_timeout self > 0 then
        (case getmtime env of
           Inl e \<Rightarrow>
             if is_OSError e then
               (if e \<noteq> FileNotFoundError
                then Inl (ServerStatusError ''failed to get cache file mtime'')
                else Inr (self, True))
             else Inl e
         | Inr mtime \<Rightarrow>
             if time_check env - mtime < cache_timeout self then
               (case load env of
                  Inl e \<Rightarrow>
                    if is_OSError e then Inl (ServerStatusError ''failed to load cached JSON data'')
                    else Inl e
                | Inr obj \<Rightarrow> Inr (self\<lparr>json_obj := obj, json_mtime := mtime\<rparr>, False))
             else Inr (self, True))
      else Inr (self, False))"

definition fetch_error :: "exn \<Rightarrow> exn" where
  "fetch_error e =
     (if e = URLError \<or> e = HTTPError \<or> e = SocketTimeout
      then ServerStatusError ''failed to retrieve server data''
      else if e = ValueError then ServerStatusError ''failed to parse retrieved server data''
      else e)"

definition fetch :: "(snapshot \<Rightarrow> string) \<Rightarrow> retrieve_env \<Rightarrow> server_status
    \<Rightarrow> exn + server_status \<times> string option" where
  "fetch encode env self =
     (if \<not> truthy (json_obj self) then
        (case first_fetch env of
           Inl e \<Rightarrow> Inl (fetch_error e)
         | Inr a \<Rightarrow>
            (case second_fetch env of
               Inl e \<Rightarrow> Inl (fetch_error e)
             | Inr b \<Rightarrow> Inr (self\<lparr>json_obj := Snapshot b, json_mtime := time_fetch env\<rparr>,
                              Some (encode a))))
      else Inr (self, None))"

text \<open>The result of \<open>retrieve\<close>: the exception raised, if any; the object afterwards; the
  text written to the cache file, if the write was made and succeeded.\<close>

definition retrieve :: "(snapshot \<Rightarrow> string) \<Rightarrow> retrieve_env \<Rightarrow> server_status
    \<Rightarrow> exn option \<times> server_status \<times> string option" where
  "retrieve encode env self =
     (let s0 = self\<lparr>json_obj := PyNone\<rparr> in
      case load_cache env s0 of
        Inl e \<Rightarrow> (Some e, s0, None)
      | Inr (s1, save_json) \<Rightarrow>
         (case fetch encode env s1 of
            Inl e \<Rightarrow> (Some e, s1, None)
          | Inr (s2, json_str) \<Rightarrow>
             (case json_str of
                None \<Rightarrow> (None, s2, None)
              | Some text \<Rightarrow>
                  if save_json \<and> text \<noteq> [] then
                    (case write_file env of
                       Some e \<Rightarrow>
                         (Some (if is_OSError e then ServerStatusError ''failed to cache JSON data''
                                else e), s2, None)
                     | None \<Rightarrow> (None, s2, Some text))
                  else (None, s2, None))))"

text \<open>\<open>get_obj\<close>: \<open>t\<close> is \<open>time.time()\<close> at the test.\<close>

definition get_obj :: "(snapshot \<Rightarrow> string) \<Rightarrow> retrieve_env \<Rightarrow> real \<Rightarrow> server_status
    \<Rightarrow> (exn + json) \<times> server_status" where
  "get_obj encode env t self =
     (if \<not> truthy (json_obj self) \<or> t > json_mtime self + refresh_interval self then
        (case retrieve encode env self of
           (Some e, s, w) \<Rightarrow> (Inl e, s)
         | (None, s, w) \<Rightarrow> (Inr (json_obj s), s))
      else (Inr (json_obj self), self))"

definition demo_snapshot :: snapshot where
  "demo_snapshot = \<lparr> title = ''PrivateVPN Server list'', version = 1, headers = [''Country''],
                     last_check = ''2018-11-04 10:00:00.000001'', total = 2,
                     servers = [srv_se] \<rparr>"

definition demo_encode :: "snapshot \<Rightarrow> string" where
  "demo_encode s = ''{title: '' @ title s @ ''}''"

definition demo_status :: server_status where
  "demo_status = \<lparr> refresh_interval = 0, json_mtime = 0, json_obj = EmptyDict, cache_timeout = 300 \<rparr>"

definition write_fails :: retrieve_env where
  "write_fails = \<lparr> getmtime = Inl FileNotFoundError, time_check = 1000, load = Inl FileNotFoundError,
                   first_fetch = Inr demo_snapshot, second_fetch = Inr demo_snapshot,
                   time_fetch = 1001, write_file = Some OSError \<rparr>"


section \<open>get_mirrorlist\<close>

text \<open>
  The library calls of \<open>get_mirrorlist\<close>: \<open>strptime s fmt\<close> is
  \<open>datetime.datetime.strptime(s, fmt).timetuple()\<close>, \<open>strftime fmt t\<close> is \<open>time.strftime\<close>,
  \<open>gmtime\<close> is \<open>time.gmtime\<close> (\<open>None\<close>: no argument, the current time), \<open>pipes_quote\<close> is
  \<open>pipes.quote\<close>, \<open>num_str\<close> is what \<open>'{}'.format\<close> prints for a number. \<open>'t\<close> is the type
  of time tuples.
\<close>

record 't textlib =
  strptime :: "string \<Rightarrow> string \<Rightarrow> exn + 't"
  strftime :: "string \<Rightarrow> 't \<Rightarrow> string"
  gmtime :: "real option \<Rightarrow> 't"
  pipes_quote :: "string \<Rightarrow> string"
  num_str :: "real \<Rightarrow> string"

definition URL :: string where
  "URL = ''https://privatevpn.com/serverlist''"

definition DISPLAY_TIME_FORMAT :: string where
  "DISPLAY_TIME_FORMAT = ''%Y-%m-%d %H:%M:%S UTC''"

definition PARSE_TIME_FORMAT :: string where
  "PARSE_TIME_FORMAT = ''%Y-%m-%dT%H:%M:%SZ''"

definition PARSE_TIME_FORMAT_WITH_USEC :: string where
  "PARSE_TIME_FORMAT_WITH_USEC = ''%Y-%m-%d %H:%M:%S.%f''"

definition newline :: string where
  "newline = [CHR 0x0A]"

text \<open>\<open>'{}'.format(v)\<close>.\<close>

definition format_val :: "'t textlib \<Rightarrow> pyval \<Rightarrow> string" where
  "format_val lib v = (case v of S s \<Rightarrow> s | N x \<Rightarrow> num_str lib x)"

text \<open>\<open>MIRRORLIST_ENTRY_FORMAT.format(u)\<close>.\<close>

definition MIRRORLIST_ENTRY_FORMAT :: "'t textlib \<Rightarrow> pyval \<Rightarrow> string" where
  "MIRRORLIST_ENTRY_FORMAT lib u = ''Server = '' @ format_val lib u @ newline"

text \<open>\<open>sep.join(xs)\<close>, \<open>s.center(width, fillchar)\<close> and \<open>'{:<11s}'.format(s)\<close>.\<close>

fun join :: "string \<Rightarrow> string list \<Rightarrow> string" where
  "join sep [] = []"
| "join sep [x] = x"
| "join sep (x # y # ys) = x @ sep @ join sep (y # ys)"

definition center :: "string \<Rightarrow> nat \<Rightarrow> char \<Rightarrow> string" where
  "center s width fillchar =
     (if width \<le> length s then s
      else (let marg = width - length s;
                left = marg div 2 + (if odd marg \<and> odd width then 1 else 0)
            in replicate left fillchar @ s @ replicate (marg - left) fillchar))"

definition ljust :: "string \<Rightarrow> nat \<Rightarrow> string" where
  "ljust s width = s @ replicate (width - length s) CHR '' ''"

definition display_time :: "'t textlib \<Rightarrow> 't \<Rightarrow> string" where
  "display_time lib t = strftime lib DISPLAY_TIME_FORMAT t"

text \<open>\<open>self.json_obj['last_check']\<close>.\<close>

definition last_check_of :: "json \<Rightarrow> exn + string" where
  "last_check_of j = (case j of PyNone \<Rightarrow> Inl TypeError | EmptyDict \<Rightarrow> Inl KeyError
                      | Snapshot s \<Rightarrow> Inr (last_check s))"

definition parse_last_check :: "'t textlib \<Rightarrow> string \<Rightarrow> exn + 't" where
  "parse_last_check lib s =
     (case strptime lib s PARSE_TIME_FORMAT_WITH_USEC of
        Inr t \<Rightarrow> Inr t
      | Inl e \<Rightarrow> if e = ValueError then strptime lib s PARSE_TIME_FORMAT else Inl e)"

definition cmd_text :: "'t textlib \<Rightarrow> string list option \<Rightarrow> string" where
  "cmd_text lib cmd =
     (case cmd of None \<Rightarrow> ''?''
      | Some xs \<Rightarrow> ''reflector '' @ join '' '' (map (pipes_quote lib) xs))"

text \<open>The text \<open>mirrorlist\<close> holds before the loop.\<close>

definition banner :: "'t textlib \<Rightarrow> server_status \<Rightarrow> string \<Rightarrow> 't \<Rightarrow> string" where
  "banner lib self cmd parsed_last_check =
     (let header = center ''# PrivateVPN server list #'' 80 CHR ''#'';
          border = replicate (length header) CHR ''#''
      in border @ newline @ header @ newline @ border @ newline
         @ newline
         @ join newline
             (map (\<lambda>(k, v). ''# '' @ ljust k 11 @ '' '' @ v)
                [(''With:'', cmd),
                 (''When:'', display_time lib (gmtime lib None)),
                 (''From:'', URL),
                 (''Retrieved:'', display_time lib (gmtime lib (Some (json_mtime self)))),
                 (''Last Check:'', display_time lib parsed_last_check)])
         @ newline @ newline)"

text \<open>The body of \<open>if include_country\<close>, on the variables \<open>country\<close> and \<open>mirrorlist\<close>.\<close>

definition country_tag :: "'t textlib \<Rightarrow> string option \<Rightarrow> string \<Rightarrow> mirror
    \<Rightarrow> exn + string option \<times> string" where
  "country_tag lib country mirrorlist m =
     (case getitem m ''country'' of
        Inl e \<Rightarrow> Inl e
      | Inr a \<Rightarrow>
         (case getitem m ''country_code'' of
            Inl e \<Rightarrow> Inl e
          | Inr b \<Rightarrow>
             (let c = format_val lib a @ '' ['' @ format_val lib b @ '']'' in
              if Some c \<noteq> country then
                Inr (Some c,
                     (if country \<noteq> None \<and> country \<noteq> Some [] then mirrorlist @ newline
                      else mirrorlist) @ ''# '' @ c @ newline)
              else Inr (country, mirrorlist))))"

text \<open>The loop \<open>for mirror in mirrors\<close>.\<close>

fun entries :: "'t textlib \<Rightarrow> bool \<Rightarrow> string option \<Rightarrow> string \<Rightarrow> mirror list \<Rightarrow> exn + string" where
  "entries lib include_country country mirrorlist [] = Inr mirrorlist"
| "entries lib include_country country mirrorlist (m # ms) =
     (case (if include_country then country_tag lib country mirrorlist m
            else Inr (country, mirrorlist)) of
        Inl e \<Rightarrow> Inl e
      | Inr (country', tagged) \<Rightarrow>
         (case getitem m ''url'' of
            Inl e \<Rightarrow> Inl e
          | Inr u \<Rightarrow>
              entries lib include_country country' (tagged @ MIRRORLIST_ENTRY_FORMAT lib u) ms))"

text \<open>\<open>self.get_mirrors()\<close> on the object: \<open>self.get_obj()['servers']\<close>.\<close>

definition get_mirrors_obj :: "(snapshot \<Rightarrow> string) \<Rightarrow> retrieve_env \<Rightarrow> real \<Rightarrow> server_status
    \<Rightarrow> (exn + mirror list) \<times> server_status" where
  "get_mirrors_obj encode env t self =
     (case get_obj encode env t self of
        (Inl e, s) \<Rightarrow> (Inl e, s)
      | (Inr PyNone, s) \<Rightarrow> (Inl TypeError, s)
      | (Inr EmptyDict, s) \<Rightarrow> (Inl KeyError, s)
      | (Inr (Snapshot snap), s) \<Rightarrow> (Inr (servers snap), s))"

text \<open>
  \<open>get_mirrorlist\<close> from \<open>cmd = ...\<close> on, once \<open>mirrors\<close> is bound. The sequence \<open>mirrors\<close> is
  given by what iterating it does: the records it yields and the exception that ends the
  iteration, if any (a list yields its elements and raises nothing).
\<close>

definition mirrorlist_text :: "'t textlib \<Rightarrow> server_status \<Rightarrow> mirror list \<times> exn option \<Rightarrow> bool
    \<Rightarrow> string list option \<Rightarrow> exn + string option" where
  "mirrorlist_text lib self mirrors include_country cmd =
     (case last_check_of (json_obj self) of
        Inl e \<Rightarrow> Inl e
      | Inr lc \<Rightarrow>
         (case parse_last_check lib lc of
            Inl e \<Rightarrow> Inl e
          | Inr parsed_last_check \<Rightarrow>
             (case entries lib include_country None
                     (banner lib self (cmd_text lib cmd) parsed_last_check) (fst mirrors) of
                Inl e \<Rightarrow> Inl e
              | Inr mirrorlist \<Rightarrow>
                 (case snd mirrors of
                    Some e \<Rightarrow> Inl e
                  | None \<Rightarrow> if fst mirrors = [] then Inr None else Inr (Some mirrorlist)))))"

text \<open>
  \<open>get_mirrorlist\<close>: the value returned or the exception raised, and the object afterwards
  (\<open>self.get_mirrors()\<close> may retrieve).
\<close>

definition get_mirrorlist :: "(snapshot \<Rightarrow> string) \<Rightarrow> retrieve_env \<Rightarrow> real \<Rightarrow> 't textlib
    \<Rightarrow> server_status \<Rightarrow> (mirror list \<times> exn option) option \<Rightarrow> bool \<Rightarrow> string list option
    \<Rightarrow> (exn + string option) \<times> server_status" where
  "get_mirrorlist encode env t lib self mirrors include_country cmd =
     (case mirrors of
        Some seq \<Rightarrow> (mirrorlist_text lib self seq include_country cmd, self)
      | None \<Rightarrow>
         (case get_mirrors_obj encode env t self of
            (Inl e, s) \<Rightarrow> (Inl e, s)
          | (Inr ms, s) \<Rightarrow> (mirrorlist_text lib s (ms, None) include_country cmd, s)))"

text \<open>
  The output the formatter is to produce, written from its description: for each record,
  in order, an optional country comment (only with \<open>include_country\<close>, when the country
  differs from the previous record's; a blank line first unless it is the first) and
  the line \<open>Server = <url>\<close>.
\<close>

definition country_label :: "'t textlib \<Rightarrow> mirror \<Rightarrow> string" where
  "country_label lib m =
     format_val lib (the (m ''country'')) @ '' ['' @ format_val lib (the (m ''country_code'')) @ '']''"

definition server_line :: "'t textlib \<Rightarrow> mirror \<Rightarrow> string" where
  "server_line lib m = ''Server = '' @ format_val lib (the (m ''url'')) @ newline"

fun country_comments :: "'t textlib \<Rightarrow> string option \<Rightarrow> mirror list \<Rightarrow> string list" where
  "country_comments lib previous [] = []"
| "country_comments lib previous (m # ms) =
     (if Some (country_label lib m) = previous then []
      else (if previous = None then [] else newline) @ ''# '' @ country_label lib m @ newline)
     # country_comments lib (Some (country_label lib m)) ms"

definition server_lines :: "'t textlib \<Rightarrow> bool \<Rightarrow> mirror list \<Rightarrow> string" where
  "server_lines lib include_country ms =
     concat (map2 (\<lambda>comment m. comment @ server_line lib m)
               (if include_country then country_comments lib None ms
                else replicate (length ms) [])
               ms)"

definition demo_textlib :: "string textlib" where
  "demo_textlib = \<lparr> strptime = (\<lambda>s fmt. if fmt = PARSE_TIME_FORMAT_WITH_USEC then Inr (take 19 s)
                                        else Inl ValueError),
                     strftime = (\<lambda>fmt t. t @ '' UTC''),
                     gmtime = (\<lambda>t. ''2018-11-04 12:00:00''),
                     pipes_quote = (\<lambda>s. s),
                     num_str = (\<lambda>x. ''0.0'') \<rparr>"

definition loaded_status :: server_status where
  "loaded_status = \<lparr> refresh_interval = 0, json_mtime = 1001, json_obj = Snapshot demo_snapshot,
                     cache_timeout = 300 \<rparr>"


section \<open>Properties of get_country_code\<close>

lemma db_contract_cases:
  assumes "db_contract db"
  shows "db f c = Inl KeyError \<or> (\<exists>code. db f c = Inr code \<and> code \<noteq> [])"
proof (cases "db f c")
  case (Inl e)
  with assms have "e = KeyError" unfolding db_contract_def by blast
  with Inl show ?thesis by simp
next
  case (Inr code)
  with assms have "code \<noteq> []" unfolding db_contract_def by blast
  with Inr show ?thesis by simp
qed

lemma alias_table_unfold:
  "(case alias_table country of Some c \<Rightarrow> c | None \<Rightarrow> ''ERROR'') =
     (if country = ''Russia'' then ''RU'' else if country = ''South Korea'' then ''KR''
      else if country = ''USA'' then ''US'' else ''ERROR'')"
  by (simp add: alias_table_def)

lemma alias_table_nonempty:
  "(case alias_table country of Some c \<Rightarrow> c | None \<Rightarrow> ''ERROR'') \<noteq> []"
  unfolding alias_table_unfold by simp

lemma get_country_code_chain:
  assumes "db_contract db"
  shows "get_country_code db country = Inr (resolve_chain db country)"
proof (cases "db Name country")
  case (Inr c)
  then show ?thesis by (simp add: get_country_code_def resolve_chain_def)
next
  case n: (Inl e)
  with db_contract_cases [OF assms, of Name country]
  have n': "db Name country = Inl KeyError" by simp
  show ?thesis
  proof (cases "db CommonName country")
    case (Inr c)
    with n' show ?thesis by (simp add: get_country_code_def resolve_chain_def)
  next
    case (Inl e)
    with db_contract_cases [OF assms, of CommonName country]
    have c': "db CommonName country = Inl KeyError" by simp
    show ?thesis
    proof (cases "db OfficialName country")
      case (Inr c)
      with n' c' show ?thesis by (simp add: get_country_code_def resolve_chain_def)
    next
      case (Inl e)
      with db_contract_cases [OF assms, of OfficialName country]
      have "db OfficialName country = Inl KeyError" by simp
      with n' c' show ?thesis
        by (simp add: get_country_code_def resolve_chain_def alias_table_unfold)
    qed
  qed
qed

lemma resolve_chain_nonempty:
  assumes "db_contract db"
  shows "resolve_chain db country \<noteq> []"
  using db_contract_cases [OF assms, of Name country]
    db_contract_cases [OF assms, of CommonName country]
    db_contract_cases [OF assms, of OfficialName country]
    alias_table_nonempty [of country]
  unfolding resolve_chain_def by (auto split: sum.splits)

lemma demo_db_contract: "db_contract demo_db"
  by (auto simp: db_contract_def demo_db_def split: if_splits)

text \<open>
  C6: for every input country string the resolution returns a value and raises nothing:
  the code found by name, else by common name, else by official name, else the alias of
  Russia, South Korea or USA, else the sentinel ERROR; the value is never empty. The
  country database is the library's, with a miss signalled by KeyError.
\<close>

theorem get_country_code_total:
  assumes "db_contract db"
  shows "get_country_code db country = Inr (resolve_chain db country)
         \<and> resolve_chain db country \<noteq> []"
  using assms get_country_code_chain resolve_chain_nonempty by blast

theorem get_country_code_total_witness:
  "db_contract demo_db
   \<and> get_country_code demo_db ''USA'' = Inr ''US''
   \<and> get_country_code demo_db ''Bolivia'' = Inr ''BO''
   \<and> get_country_code demo_db ''Atlantis'' = Inr ''ERROR''"
proof -
  have r1: "resolve_chain demo_db ''USA'' = ''US''"
    by (simp add: resolve_chain_def demo_db_def alias_table_def)
  have r2: "resolve_chain demo_db ''Bolivia'' = ''BO''"
    by (simp add: resolve_chain_def demo_db_def alias_table_def)
  have r3: "resolve_chain demo_db ''Atlantis'' = ''ERROR''"
    by (simp add: resolve_chain_def demo_db_def alias_table_def)
  show ?thesis
    using get_country_code_total [OF demo_db_contract, of "''USA''"]
      get_country_code_total [OF demo_db_contract, of "''Bolivia''"]
      get_country_code_total [OF demo_db_contract, of "''Atlantis''"]
      demo_db_contract r1 r2 r3
    by simp
qed

section \<open>Properties of get_server_data\<close>

lemma row_records_length:
  "row_records db rows = Inr data \<Longrightarrow> length data = length (filter (\<lambda>tds. length tds = 6) rows)"
proof (induction rows arbitrary: data)
  case Nil
  then show ?case by simp
next
  case (Cons tds rows)
  then show ?case
    by (auto simp: Let_def split: if_splits sum.splits)
qed

lemma get_server_data_servers_le_total:
  "get_server_data db utcnow page = Inr snap \<Longrightarrow> length (servers snap) \<le> total snap"
  by (auto simp: get_server_data_def row_records_length
      split: option.splits sum.splits)

text \<open>
  C3: the snapshot's total should equal the length of its servers list. The source stores
  the number of all table rows: on a page with a head row and one server row the
  snapshot has total 2 and one server.
\<close>

theorem get_server_data_total_mismatch:
  "\<exists>snap. get_server_data demo_db ''2018-11-04 10:00:00.000001'' (Some demo_page) = Inr snap
          \<and> total snap = 2 \<and> length (servers snap) = 1"
  by (simp add: get_server_data_def demo_page_def get_country_code_def demo_db_def
      remove_newlines_def strip_def is_space_def Let_def)

section \<open>Properties of filter\<close>

subsection \<open>Each stage decides its criterion\<close>

lemma country_stage_meets:
  "country_stage lib c m = Inr b \<Longrightarrow> b = meets_countries lib c m"
  by (auto simp: country_stage_def meets_countries_def upper_in_def getitem_def Let_def
      split: option.splits sum.splits pyval.splits bool.splits if_splits)

lemma protocol_stage_meets:
  "protocol_stage c m = Inr b \<Longrightarrow> b = meets_protocols c m"
  by (auto simp: protocol_stage_def meets_protocols_def getitem_def
      split: option.splits sum.splits pyval.splits if_splits)

lemma search_any_True:
  "m ''url'' = Some u \<Longrightarrow> search_any lib m pats = Inr b
   \<Longrightarrow> b = list_ex (\<lambda>p. re_search lib p u = Inr True) pats"
  by (induction pats) (auto simp: getitem_def split: sum.splits bool.splits)

lemma search_any_url:
  "pats \<noteq> [] \<Longrightarrow> search_any lib m pats = Inr b \<Longrightarrow> \<exists>u. m ''url'' = Some u"
  by (cases pats) (auto simp: getitem_def split: option.splits)

lemma include_stage_meets:
  "include_stage lib c m = Inr b \<Longrightarrow> b = meets_include lib c m"
  by (auto simp: include_stage_def meets_include_def
      split: option.splits if_splits dest: search_any_url search_any_True)

lemma exclude_stage_meets:
  "exclude_stage lib c m = Inr b \<Longrightarrow> b = meets_exclude lib c m"
  by (auto simp: exclude_stage_def meets_exclude_def list_ex_iff list_all_iff
      split: option.splits if_splits sum.splits dest: search_any_url search_any_True)

lemma age_stage_meets:
  "age_stage c t m = Inr b \<Longrightarrow> b = meets_age c t m"
  by (auto simp: age_stage_def meets_age_def getitem_def
      split: option.splits sum.splits pyval.splits if_splits)

lemma and_then_Inr:
  "and_then a b = Inr r \<Longrightarrow> (a = Inr False \<and> \<not> r) \<or> (a = Inr True \<and> b = Inr r)"
  by (auto simp: and_then_def split: sum.splits bool.splits)

lemma keep_meets: "keep lib c t m = Inr b \<Longrightarrow> b = meets_all lib c t m"
  unfolding keep_def meets_all_def
  by (auto dest!: and_then_Inr
      dest: country_stage_meets protocol_stage_meets include_stage_meets exclude_stage_meets
        age_stage_meets)

lemma drain_emitted:
  "m \<in> set (fst (drain lib c t ms)) \<Longrightarrow> m \<in> set ms \<and> meets_all lib c t m"
proof (induction ms)
  case Nil
  then show ?case by simp
next
  case (Cons a ms)
  then show ?case
    by (auto split: sum.splits bool.splits dest: keep_meets)
qed

lemma drain_complete:
  "snd (drain lib c t ms) = None \<Longrightarrow> fst (drain lib c t ms) = filter (meets_all lib c t) ms"
proof (induction ms)
  case Nil
  then show ?case by simp
next
  case (Cons a ms)
  then show ?case
    by (auto split: sum.splits bool.splits dest: keep_meets)
qed

lemma drain_raises:
  "snd (drain lib c t ms) = Some e \<Longrightarrow> \<exists>m \<in> set ms. keep lib c t m = Inl e"
proof (induction ms)
  case Nil
  then show ?case by simp
next
  case (Cons a ms)
  then show ?case
    by (auto split: sum.splits bool.splits)
qed

lemma scan_drain_raise:
  "scan lib c t ms i = Inl e \<Longrightarrow> drain lib c t ms = ([], Some e)"
  by (induction ms arbitrary: i) (auto split: sum.splits bool.splits)

lemma scan_drain_stop:
  "scan lib c t ms i = Inr None \<Longrightarrow> drain lib c t ms = ([], None)"
  by (induction ms arbitrary: i) (auto split: sum.splits bool.splits)

lemma scan_drain_yield:
  "scan lib c t ms i = Inr (Some (m, j)) \<Longrightarrow>
     drain lib c t ms = (m # fst (drain lib c t (drop (j - i) ms)),
                         snd (drain lib c t (drop (j - i) ms)))"
proof (induction ms arbitrary: i)
  case Nil
  then show ?case by simp
next
  case (Cons a ms)
  show ?case
  proof (cases "keep lib c t a")
    case (Inl e)
    with Cons.prems show ?thesis by simp
  next
    case (Inr b)
    show ?thesis
    proof (cases b)
      case True
      with Inr Cons.prems have "a = m" and "j = Suc i" by simp_all
      then have "drop (j - i) (a # ms) = ms" by simp
      with Inr True \<open>a = m\<close> show ?thesis by simp
    next
      case False
      with Inr Cons.prems have s: "scan lib c t ms (Suc i) = Inr (Some (m, j))" by simp
      from scan_pos [OF s] have "j - i = Suc (j - Suc i)" by arith
      with Cons.IH [OF s] Inr False show ?thesis by simp
    qed
  qed
qed

lemma iterate_Finished:
  "g_state g = Finished \<Longrightarrow> iterate lib \<sigma> g = ([], None, g)"
  by (subst iterate.simps) (simp add: gen_next_def)

lemma iterate_Suspended:
  "g_state g = Suspended r t i \<Longrightarrow>
     iterate lib \<sigma> g =
       (fst (drain lib (g_crit g) t (drop i (cells \<sigma> r))),
        snd (drain lib (g_crit g) t (drop i (cells \<sigma> r))),
        g\<lparr>g_state := Finished\<rparr>)"
proof (induction "length (cells \<sigma> r) - i" arbitrary: i g rule: less_induct)
  case less
  let ?xs = "drop i (cells \<sigma> r)"
  show ?case
  proof (cases "scan lib (g_crit g) t ?xs i")
    case (Inl e)
    with less.prems scan_drain_raise [OF Inl] show ?thesis
      by (subst iterate.simps) (simp add: gen_next_def resume_def)
  next
    case (Inr res)
    show ?thesis
    proof (cases res)
      case None
      with Inr have s: "scan lib (g_crit g) t ?xs i = Inr None" by simp
      with less.prems scan_drain_stop [OF s] show ?thesis
        by (subst iterate.simps) (simp add: gen_next_def resume_def)
    next
      case (Some mj)
      obtain m j where mj: "mj = (m, j)" by (cases mj)
      with Inr Some have s: "scan lib (g_crit g) t ?xs i = Inr (Some (m, j))" by simp
      from scan_pos [OF s] have ij: "i < j" and jl: "j \<le> i + length ?xs" by simp_all
      have il: "i < length (cells \<sigma> r)"
        using s by (cases "i < length (cells \<sigma> r)") auto
      let ?g' = "g\<lparr>g_state := Suspended r t j\<rparr>"
      have dec: "length (cells \<sigma> r) - j < length (cells \<sigma> r) - i"
        using ij il by arith
      have st: "g_state ?g' = Suspended r t j" by simp
      have ih: "iterate lib \<sigma> ?g' =
         (fst (drain lib (g_crit g) t (drop j (cells \<sigma> r))),
          snd (drain lib (g_crit g) t (drop j (cells \<sigma> r))),
          g\<lparr>g_state := Finished\<rparr>)"
        using less.hyps [OF dec st] by simp
      have dd: "drop (j - i) ?xs = drop j (cells \<sigma> r)"
        using ij by simp
      have nx: "gen_next lib \<sigma> g = (Inr (Some m), ?g')"
        using less.prems s by (simp add: gen_next_def resume_def)
      show ?thesis
        using scan_drain_yield [OF s] dd ih nx
        by (subst iterate.simps) simp
    qed
  qed
qed

lemma iterate_Created:
  assumes "g_state g = Created"
  shows "iterate lib \<sigma> g =
       (fst (drain lib (g_crit g) (now \<sigma>) (source_list \<sigma> (g_mirrors g))),
        snd (drain lib (g_crit g) (now \<sigma>) (source_list \<sigma> (g_mirrors g))),
        g\<lparr>g_state := Finished\<rparr>)"
proof -
  let ?r = "case g_mirrors g of None \<Rightarrow> get_mirrors \<sigma> | Some r \<Rightarrow> r"
  let ?g0 = "g\<lparr>g_state := Suspended ?r (now \<sigma>) 0\<rparr>"
  have n: "gen_next lib \<sigma> g = gen_next lib \<sigma> ?g0"
    using assms by (simp add: gen_next_def resume_def split: sum.splits option.splits)
  have "iterate lib \<sigma> g = iterate lib \<sigma> ?g0"
    by (subst iterate.simps, subst (2) iterate.simps) (simp add: n)
  moreover have "g_state ?g0 = Suspended ?r (now \<sigma>) 0" by simp
  ultimately show ?thesis
    using iterate_Suspended [of ?g0 ?r "now \<sigma>" 0 lib \<sigma>]
    by (simp add: source_list_def)
qed

lemmas stage_defs = keep_def and_then_def country_stage_def protocol_stage_def
  include_stage_def exclude_stage_def age_stage_def upper_in_def getitem_def

lemmas meets_defs = meets_all_def meets_countries_def meets_protocols_def meets_include_def
  meets_exclude_def meets_age_def

lemma demo_source: "source_list demo_store None = [srv_se, srv_de]"
  by (simp add: source_list_def get_mirrors_def demo_store_def)

lemma demo_now: "now demo_store = 2000"
  by (simp add: demo_store_def)

lemma keep_sweden_se: "keep demo_lib only_sweden 2000 srv_se = Inr True"
  by (simp add: stage_defs only_sweden_def no_criteria_def srv_se_def demo_lib_def upper_char_def)

lemma keep_sweden_de: "keep demo_lib only_sweden 2000 srv_de = Inr False"
  by (simp add: stage_defs only_sweden_def no_criteria_def srv_de_def demo_lib_def upper_char_def)

lemma keep_http_se: "keep demo_lib only_http 2000 srv_se = Inl KeyError"
  by (simp add: stage_defs only_http_def no_criteria_def srv_se_def demo_lib_def)

lemma keep_hour_se: "keep demo_lib last_hour 2000 srv_se = Inl KeyError"
  by (simp add: stage_defs last_hour_def no_criteria_def srv_se_def demo_lib_def)

lemma keep_none: "keep lib no_criteria t m = Inr True"
  by (simp add: stage_defs no_criteria_def)

lemma meets_http_de: "meets_all demo_lib only_http 2000 srv_de"
  by (simp add: meets_defs only_http_def no_criteria_def srv_de_def)

lemma iterate_fresh:
  "iterate lib \<sigma> (filter_py c mirrors) =
     (fst (drain lib c (now \<sigma>) (source_list \<sigma> mirrors)),
      snd (drain lib c (now \<sigma>) (source_list \<sigma> mirrors)),
      (filter_py c mirrors)\<lparr>g_state := Finished\<rparr>)"
  using iterate_Created [of "filter_py c mirrors" lib \<sigma>] by (simp add: filter_py_def)

lemma iterate_ends_Finished:
  assumes "iterate lib \<sigma> g = (out, status, g')"
  shows "g_state g' = Finished"
proof (cases "g_state g")
  case Created
  from iterate_Created [OF this, of lib \<sigma>] assms show ?thesis by auto
next
  case (Suspended r t i)
  from iterate_Suspended [OF this, of lib \<sigma>] assms show ?thesis by auto
next
  case Finished
  from iterate_Finished [OF this, of lib \<sigma>] assms Finished show ?thesis by auto
qed

lemma iterate_sweden:
  "iterate demo_lib demo_store (filter_py only_sweden None) =
     ([srv_se], None, (filter_py only_sweden None)\<lparr>g_state := Finished\<rparr>)"
  by (simp add: iterate_fresh demo_source demo_now keep_sweden_se keep_sweden_de)

lemma iterate_http:
  "iterate demo_lib demo_store (filter_py only_http None) =
     ([], Some KeyError, (filter_py only_http None)\<lparr>g_state := Finished\<rparr>)"
  by (simp add: iterate_fresh demo_source demo_now keep_http_se)

lemma iterate_hour:
  "iterate demo_lib demo_store (filter_py last_hour None) =
     ([], Some KeyError, (filter_py last_hour None)\<lparr>g_state := Finished\<rparr>)"
  by (simp add: iterate_fresh demo_source demo_now keep_hour_se)

lemma iterate_all:
  "iterate demo_lib demo_store (filter_py no_criteria None) =
     ([srv_se, srv_de], None, (filter_py no_criteria None)\<lparr>g_state := Finished\<rparr>)"
  by (simp add: iterate_fresh demo_source demo_now keep_none)

text \<open>
  C5 (as amended): every record the filter emits is an element of the input list and
  satisfies every supplied criterion; when the iteration ends without raising, the
  emitted records are exactly the input records that satisfy every supplied criterion,
  in input order.
\<close>

theorem filter_conjunction_law:
  assumes "iterate lib \<sigma> (filter_py c mirrors) = (out, status, g')"
  shows "(\<forall>m \<in> set out. m \<in> set (source_list \<sigma> mirrors) \<and> meets_all lib c (now \<sigma>) m)
         \<and> (status = None \<longrightarrow> out = filter (meets_all lib c (now \<sigma>)) (source_list \<sigma> mirrors))"
proof -
  let ?d = "drain lib c (now \<sigma>) (source_list \<sigma> mirrors)"
  from assms have o: "out = fst ?d" and s: "status = snd ?d"
    by (simp_all add: iterate_fresh)
  show ?thesis
    unfolding o s using drain_emitted drain_complete by blast
qed

theorem filter_conjunction_law_witness:
  "iterate demo_lib demo_store (filter_py only_sweden None) =
     ([srv_se], None, (filter_py only_sweden None)\<lparr>g_state := Finished\<rparr>)
   \<and> meets_all demo_lib only_sweden 2000 srv_se
   \<and> [srv_se] = filter (meets_all demo_lib only_sweden 2000) [srv_se, srv_de]"
  using filter_conjunction_law [OF iterate_sweden] iterate_sweden
  by (simp add: demo_source demo_now)

text \<open>
  C5 as stated fails: with the protocol criterion supplied, the first record has no
  protocol field and the iteration raises KeyError there; the second record is in the
  input and satisfies every supplied criterion, and is never emitted.
\<close>

theorem filter_conjunction_law_counterexample:
  "srv_de \<in> set (source_list demo_store None)
   \<and> meets_all demo_lib only_http (now demo_store) srv_de
   \<and> iterate demo_lib demo_store (filter_py only_http None) =
       ([], Some KeyError, (filter_py only_http None)\<lparr>g_state := Finished\<rparr>)"
  by (simp add: demo_source demo_now meets_http_de iterate_http)

text \<open>
  C7 (as amended): the value filter returns is a one-shot generator; once it has been
  iterated to its end (normally or by an exception), iterating the same value again
  yields no record.
\<close>

theorem filter_second_pass_empty:
  assumes "iterate lib \<sigma> g = (out, status, g')"
  shows "iterate lib \<sigma> g' = ([], None, g')"
  using iterate_Finished [OF iterate_ends_Finished [OF assms]] .

theorem filter_second_pass_empty_witness:
  "iterate demo_lib demo_store (filter_py no_criteria None) =
     ([srv_se, srv_de], None, (filter_py no_criteria None)\<lparr>g_state := Finished\<rparr>)
   \<and> iterate demo_lib demo_store ((filter_py no_criteria None)\<lparr>g_state := Finished\<rparr>) =
     ([], None, (filter_py no_criteria None)\<lparr>g_state := Finished\<rparr>)"
  using filter_second_pass_empty [OF iterate_all] iterate_all by simp

text \<open>
  C7 as stated fails: the first iteration of the value yields both records, the second
  iteration of the same value yields none.
\<close>

theorem filter_restartable_counterexample:
  "fst (iterate demo_lib demo_store (filter_py no_criteria None)) = [srv_se, srv_de]
   \<and> fst (iterate demo_lib demo_store
            (snd (snd (iterate demo_lib demo_store (filter_py no_criteria None))))) = []"
  by (simp add: iterate_all iterate_Finished)

text \<open>
  C8 (as amended): for a record without a last_sync field, the age branch lets the record
  pass, raising nothing, exactly when no age criterion is in effect (age absent or 0);
  with a non-zero age supplied the branch raises KeyError, and so does the filter's step
  for every such record that passed the earlier criteria.
\<close>

theorem age_branch_missing_last_sync:
  assumes "m ''last_sync'' = None"
  shows "age_stage c t m = (if age c = None \<or> age c = Some 0 then Inr True else Inl KeyError)
         \<and> (age c \<noteq> None \<and> age c \<noteq> Some 0 \<and> country_stage lib c m = Inr True
              \<and> protocol_stage c m = Inr True \<and> include_stage lib c m = Inr True
              \<and> exclude_stage lib c m = Inr True
            \<longrightarrow> keep lib c t m = Inl KeyError)"
  using assms
  by (auto simp: age_stage_def getitem_def keep_def and_then_def split: option.splits)

theorem age_branch_missing_last_sync_witness:
  "srv_se ''last_sync'' = None
   \<and> age_stage last_hour 2000 srv_se = Inl KeyError
   \<and> age_stage no_criteria 2000 srv_se = Inr True
   \<and> keep demo_lib last_hour 2000 srv_se = Inl KeyError"
proof -
  have a: "srv_se ''last_sync'' = None" by (simp add: srv_se_def)
  have b: "country_stage demo_lib last_hour srv_se = Inr True"
    "protocol_stage last_hour srv_se = Inr True"
    "include_stage demo_lib last_hour srv_se = Inr True"
    "exclude_stage demo_lib last_hour srv_se = Inr True"
    by (simp_all add: stage_defs last_hour_def no_criteria_def)
  show ?thesis
    using age_branch_missing_last_sync [where m = srv_se and c = last_hour and t = 2000
        and lib = demo_lib]
      age_branch_missing_last_sync [where m = srv_se and c = no_criteria and t = 2000
        and lib = demo_lib] a b
    by (simp add: last_hour_def no_criteria_def)
qed

text \<open>
  C8 as stated fails: the first record has no last_sync field; filtering with an age of
  one hour raises KeyError at that record and emits nothing.
\<close>

theorem age_missing_last_sync_counterexample:
  "srv_se ''last_sync'' = None
   \<and> iterate demo_lib demo_store (filter_py last_hour None) =
       ([], Some KeyError, (filter_py last_hour None)\<lparr>g_state := Finished\<rparr>)"
  by (simp add: iterate_hour srv_se_def)

section \<open>Properties of the probe\<close>






section \<open>Properties of rate\<close>

lemma urls_of_strings:
  "\<forall>m \<in> set ms. \<exists>u. m ''url'' = Some (S u) \<Longrightarrow> urls_of ms = Inr (map url_str ms)"
  by (induction ms) (auto simp: url_of_def url_str_def)

lemma fold_rates:
  assumes "\<forall>a \<in> set arrivals. fst (snd a) = f (fst a)"
  shows "fold (\<lambda>(url, rate, dt) rates. rates(url \<mapsto> rate)) arrivals acc u =
           (if u \<in> fst ` set arrivals then Some (f u) else acc u)"
  using assms
proof (induction arrivals arbitrary: acc)
  case Nil
  then show ?case by simp
next
  case (Cons a arrivals)
  obtain v r d where a: "a = (v, r, d)" by (cases a)
  with Cons.prems have r: "r = f v" by simp
  from Cons.prems have "\<forall>a \<in> set arrivals. fst (snd a) = f (fst a)" by simp
  from Cons.IH [OF this] show ?case
    by (auto simp: a r)
qed

lemma collect_rates:
  assumes "\<forall>a \<in> set arrivals. fst (snd a) = f (fst a)"
  shows "collect arrivals u = (if u \<in> fst ` set arrivals then Some (f u) else None)"
  by (simp add: collect_def fold_rates [OF assms])

lemma comprehension_filter:
  "\<forall>m \<in> set ms. rate_of rates m = Inr (f m) \<Longrightarrow>
     comprehension cond rates ms = Inr (filter (\<lambda>m. cond (f m)) ms)"
  by (induction ms) auto

lemma insort_key_agree:
  "f x = g x \<Longrightarrow> \<forall>y \<in> set ys. f y = g y \<Longrightarrow> insort_key f x ys = insort_key g x ys"
  by (induction ys) auto

lemma sort_key_agree:
  "\<forall>x \<in> set xs. f x = g x \<Longrightarrow> sort_key f xs = sort_key g xs"
proof (induction xs)
  case Nil
  then show ?case by simp
next
  case (Cons x xs)
  then have ih: "sort_key f xs = sort_key g xs" by simp
  have fx: "f x = g x" using Cons.prems by simp
  have "\<forall>y \<in> set (sort_key g xs). f y = g y" using Cons.prems by simp
  from insort_key_agree [OF fx this]
  have "insort_key f x (sort_key g xs) = insort_key g x (sort_key g xs)" .
  with ih show ?case by simp
qed

lemma sort_reverse_agree:
  "\<forall>x \<in> set xs. f x = g x \<Longrightarrow> sort_reverse f xs = sort_reverse g xs"
proof -
  assume "\<forall>x \<in> set xs. f x = g x"
  then have "\<forall>x \<in> set (rev xs). f x = g x" by simp
  from sort_key_agree [OF this] show ?thesis by (simp only: sort_reverse_def)
qed

lemma mset_sort_reverse: "mset (sort_reverse f xs) = mset xs"
  by (simp add: sort_reverse_def)

lemma sort_reverse_descending: "sorted (rev (map f (sort_reverse f xs)))"
  by (simp add: sort_reverse_def rev_map)

lemma rate_of_measured:
  assumes urls: "\<forall>m \<in> set mirrors. \<exists>u. m ''url'' = Some (S u)"
    and arr: "mset (map pair_of arrivals) =
              mset (map (\<lambda>m. (url_str m, measured (url_str m))) mirrors)"
    and m: "m \<in> set mirrors"
  shows "rate_of (collect arrivals) m = Inr (measured (url_str m))"
proof -
  have sets: "set (map pair_of arrivals) =
              set (map (\<lambda>m. (url_str m, measured (url_str m))) mirrors)"
    using arr by (rule mset_eq_setD)
  have cons: "\<forall>a \<in> set arrivals. fst (snd a) = measured (fst a)"
  proof
    fix a assume "a \<in> set arrivals"
    then have "pair_of a \<in> set (map pair_of arrivals)" by simp
    with sets obtain m' where "pair_of a = (url_str m', measured (url_str m'))" by auto
    then show "fst (snd a) = measured (fst a)" by (simp add: pair_of_def)
  qed
  have "(url_str m, measured (url_str m)) \<in> set (map pair_of arrivals)"
    using sets m by auto
  then obtain a where "a \<in> set arrivals" and "pair_of a = (url_str m, measured (url_str m))"
    by auto
  then have "url_str m \<in> fst ` set arrivals"
    by (force simp: pair_of_def)
  then have c: "collect arrivals (url_str m) = Some (measured (url_str m))"
    by (simp add: collect_rates [OF cons])
  from urls m obtain u where u: "m ''url'' = Some (S u)" by blast
  then have "url_str m = u" by (simp add: url_str_def)
  with c u show ?thesis by (simp add: rate_of_def)
qed

lemma partition_nonneg:
  assumes "\<forall>m \<in> set mirrors. 0 \<le> (k m :: real)"
  shows "mset (filter (\<lambda>m. 0 < k m) mirrors) + mset (filter (\<lambda>m. k m = 0) mirrors) = mset mirrors"
  using assms
proof (induction mirrors)
  case Nil
  then show ?case by simp
next
  case (Cons a mirrors)
  then have "0 < k a \<or> k a = 0" by auto
  with Cons show ?case by auto
qed

text \<open>
  What the driver does give: when every url is a string, the triples on the queue are the
  per-record results of one mapping of URLs to rates, in any order, and no rate is
  negative, the result is the records with a rate above 0, in stable descending order of
  rate, followed by the records with rate 0 in input order: a permutation of the input.
\<close>

lemma rate_permutation:
  assumes urls: "\<forall>m \<in> set mirrors. \<exists>u. m ''url'' = Some (S u)"
    and arr: "mset (map pair_of arrivals) =
              mset (map (\<lambda>m. (url_str m, measured (url_str m))) mirrors)"
    and nonneg: "\<forall>m \<in> set mirrors. 0 \<le> measured (url_str m)"
  shows "\<exists>out. rate mirrors arrivals = Some (Inr out)
           \<and> mset out = mset mirrors
           \<and> out = sort_reverse (\<lambda>m. measured (url_str m))
                     (filter (\<lambda>m. 0 < measured (url_str m)) mirrors)
                   @ filter (\<lambda>m. measured (url_str m) = 0) mirrors
           \<and> sorted (rev (map (\<lambda>m. measured (url_str m))
                (sort_reverse (\<lambda>m. measured (url_str m))
                   (filter (\<lambda>m. 0 < measured (url_str m)) mirrors))))"
proof -
  let ?k = "\<lambda>m. measured (url_str m)"
  let ?pos = "filter (\<lambda>m. 0 < ?k m) mirrors"
  let ?zero = "filter (\<lambda>m. ?k m = 0) mirrors"
  let ?out = "sort_reverse ?k ?pos @ ?zero"
  have perm: "mset ?out = mset mirrors"
    using partition_nonneg [of mirrors ?k] nonneg
    by (simp only: mset_append mset_sort_reverse)
  have desc: "sorted (rev (map ?k (sort_reverse ?k ?pos)))"
    by (rule sort_reverse_descending)
  have run: "rate mirrors arrivals = Some (Inr ?out)"
  proof (cases "mirrors = []")
    case True
    then show ?thesis by (simp add: rate_def sort_reverse_def)
  next
    case False
    have len: "length arrivals = length mirrors"
      using arg_cong [OF arr, of size] by simp
    have r: "\<forall>m \<in> set mirrors. rate_of (collect arrivals) m = Inr (?k m)"
      using rate_of_measured [OF urls arr] by blast
    have c1: "comprehension (\<lambda>r. r > 0) (collect arrivals) mirrors = Inr ?pos"
      using comprehension_filter [OF r, of "\<lambda>r. r > 0"] by simp
    have c2: "comprehension (\<lambda>r. r = 0) (collect arrivals) mirrors = Inr ?zero"
      using comprehension_filter [OF r, of "\<lambda>r. r = 0"] by simp
    have "\<forall>m \<in> set ?pos. rate_key (collect arrivals) m = ?k m"
      using r by (simp add: rate_key_def)
    then have s: "sort_reverse (rate_key (collect arrivals)) ?pos = sort_reverse ?k ?pos"
      by (rule sort_reverse_agree)
    show ?thesis
      using False len c1 c2 s urls_of_strings [OF urls]
      by (simp add: rate_def)
  qed
  from run perm desc show ?thesis by blast
qed

lemma url_str_srv: "url_str (srv u) = u"
  by (simp add: url_str_def srv_def)

lemma srv_url: "srv u ''url'' = Some (S u)"
  by (simp add: srv_def)

lemma rate_permutation_example:
  "rate [srv ''a'', srv ''b'', srv ''c''] demo_arrivals
     = Some (Inr [srv ''c'', srv ''a'', srv ''b''])"
proof -
  let ?ms = "[srv ''a'', srv ''b'', srv ''c'']"
  have urls: "\<forall>m \<in> set ?ms. \<exists>u. m ''url'' = Some (S u)"
    by (simp add: srv_url)
  have arr: "mset (map pair_of demo_arrivals) =
             mset (map (\<lambda>m. (url_str m, demo_rates (url_str m))) ?ms)"
    by (simp add: demo_arrivals_def pair_of_def url_str_srv demo_rates_def)
  have nonneg: "\<forall>m \<in> set ?ms. 0 \<le> demo_rates (url_str m)"
    by (simp add: url_str_srv demo_rates_def)
  have pos: "filter (\<lambda>m. 0 < demo_rates (url_str m)) ?ms = [srv ''a'', srv ''c'']"
    by (simp add: url_str_srv demo_rates_def)
  have zero: "filter (\<lambda>m. demo_rates (url_str m) = 0) ?ms = [srv ''b'']"
    by (simp add: url_str_srv demo_rates_def)
  have sorted: "sort_reverse (\<lambda>m. demo_rates (url_str m)) [srv ''a'', srv ''c'']
                  = [srv ''c'', srv ''a'']"
    by (simp add: sort_reverse_def url_str_srv demo_rates_def)
  from rate_permutation [OF urls arr nonneg, unfolded pos zero sorted] show ?thesis
    by auto
qed

lemma posted_map_Inr: "posted (map Inr as) = Some as"
  by (induction as) simp_all

text \<open>
  With the worker threads: when every worker posts the triple of its item, with a rate
  that depends on the URL only and is not negative, rate returns that same list whatever
  the order in which the triples were put.
\<close>

lemma rate_threads_sorted_permutation:
  assumes urls: "\<forall>m \<in> set mirrors. \<exists>u. m ''url'' = Some (S u)"
    and order: "mset order = mset [0..<length mirrors]"
    and posts: "\<forall>i < length mirrors. \<exists>d. worker (env i) (url_str (mirrors ! i)) =
                  Inr (url_str (mirrors ! i), measured (url_str (mirrors ! i)), d)"
    and nonneg: "\<forall>m \<in> set mirrors. 0 \<le> measured (url_str m)"
  shows "rate_threads env order mirrors =
           Some (Inr (sort_reverse (\<lambda>m. measured (url_str m))
                        (filter (\<lambda>m. 0 < measured (url_str m)) mirrors)
                      @ filter (\<lambda>m. measured (url_str m) = 0) mirrors))"
proof (cases "mirrors = []")
  case True
  then show ?thesis by (simp add: rate_threads_def sort_reverse_def)
next
  case False
  let ?n = "length mirrors"
  let ?g = "\<lambda>i. (url_str (mirrors ! i), measured (url_str (mirrors ! i)))"
  have u: "urls_of mirrors = Inr (map url_str mirrors)"
    by (rule urls_of_strings [OF urls])
  from posts obtain d where d: "\<forall>i < ?n. worker (env i) (url_str (mirrors ! i)) =
      Inr (url_str (mirrors ! i), measured (url_str (mirrors ! i)), d i)"
    by metis
  let ?triples = "map (\<lambda>i. (url_str (mirrors ! i), measured (url_str (mirrors ! i)), d i)) [0..<?n]"
  have "probe_results env (map url_str mirrors) = map Inr ?triples"
    using d by (simp add: probe_results_def)
  then have p: "posted (probe_results env (map url_str mirrors)) = Some ?triples"
    by (simp only: posted_map_Inr)
  let ?arrivals = "map (\<lambda>i. ?triples ! i) order"
  have q: "q_out_after_join env order (map url_str mirrors) = Some ?arrivals"
    by (simp add: q_out_after_join_def p)
  have in_range: "\<forall>i \<in> set order. i < ?n"
    using mset_eq_setD [OF order] by auto
  then have "map pair_of ?arrivals = map ?g order"
    by (simp add: pair_of_def)
  then have "mset (map pair_of ?arrivals) = mset (map ?g order)"
    by (rule arg_cong)
  also have "\<dots> = image_mset ?g (mset order)"
    by (rule mset_map)
  also have "\<dots> = image_mset ?g (mset [0..<?n])"
    by (simp only: order)
  also have "\<dots> = mset (map ?g [0..<?n])"
    by (rule mset_map [symmetric])
  also have "map ?g [0..<?n] = map (\<lambda>m. (url_str m, measured (url_str m))) mirrors"
    by (rule nth_equalityI) simp_all
  finally have arr: "mset (map pair_of ?arrivals) =
      mset (map (\<lambda>m. (url_str m, measured (url_str m))) mirrors)" .
  from rate_permutation [OF urls arr nonneg]
  have "rate mirrors ?arrivals =
           Some (Inr (sort_reverse (\<lambda>m. measured (url_str m))
                        (filter (\<lambda>m. 0 < measured (url_str m)) mirrors)
                      @ filter (\<lambda>m. measured (url_str m) = 0) mirrors))"
    by auto
  with False show ?thesis
    unfolding rate_threads_def u by (simp add: q)
qed

text \<open>
  C1 fails on the code in two ways. A record whose measured rate is negative (the clock
  stepped back during a download of 1024 bytes: elapsed time -1, rate -1024) is in
  neither of the two lists rate returns: the result is empty, the record is dropped. And
  a worker that raises before its try block (the ping fails) posts nothing and never
  marks its item done: rate does not return at all.
\<close>

theorem rate_drops_or_blocks:
  "rate_threads (every (http_probe (Inr 1024) (- 1))) [0] [srv ''https://se-sto.pvdata.host/'']
     = Some (Inr [])
   \<and> rate_threads (every ping_fails) [0] [srv ''https://se-sto.pvdata.host/''] = None"
proof -
  let ?u = "''https://se-sto.pvdata.host/''"
  have u: "urls_of [srv ?u] = Inr [?u]"
    by (simp add: url_of_def srv_def)
  have w1: "worker (http_probe (Inr 1024) (- 1)) ?u = Inr (?u, - 1024, Secs (- 1))"
    by (simp add: worker_def http_try_def divide_def http_probe_def)
  have w2: "worker ping_fails ?u = Inl OSError"
    by (simp add: worker_def ping_fails_def http_probe_def)
  have q1: "q_out_after_join (every (http_probe (Inr 1024) (- 1))) [0] [?u]
              = Some [(?u, - 1024, Secs (- 1))]"
    by (simp add: q_out_after_join_def probe_results_def every_def w1)
  have q2: "q_out_after_join (every ping_fails) [0] [?u] = None"
    by (simp add: q_out_after_join_def probe_results_def every_def w2)
  have r: "rate_of (collect [(?u, - 1024, Secs (- 1))]) (srv ?u) = Inr (- 1024)"
    by (simp add: rate_of_def collect_def srv_def)
  have c: "comprehension (\<lambda>r. r > 0) (collect [(?u, - 1024, Secs (- 1))]) [srv ?u] = Inr []"
    "comprehension (\<lambda>r. r = 0) (collect [(?u, - 1024, Secs (- 1))]) [srv ?u] = Inr []"
    by (simp_all add: r)
  have d: "rate [srv ?u] [(?u, - 1024, Secs (- 1))] = Some (Inr [])"
    unfolding rate_def u by (simp add: Let_def r sort_reverse_def)
  show ?thesis
    unfolding rate_threads_def u by (simp add: q1 q2 d)
qed


section \<open>Properties of sort\<close>


























section \<open>Properties of retrieve\<close>

text \<open>
  C2 (as amended): in every run of retrieve in which caching is enabled, the cache is
  missing or stale, fresh data was successfully fetched and the write of the cache file
  then fails with an I/O error, retrieve raises ServerStatusError (failed to cache JSON
  data) to the caller; the object's in-memory snapshot is the freshly fetched one.
\<close>

theorem retrieve_cache_write_failure:
  assumes enabled: "cache_timeout self > 0"
    and miss: "getmtime env = Inl FileNotFoundError
               \<or> (\<exists>mtime. getmtime env = Inr mtime \<and> \<not> time_check env - mtime < cache_timeout self)"
    and fetched: "first_fetch env = Inr a" "second_fetch env = Inr b" "encode a \<noteq> []"
    and failed: "write_file env = Some e" "is_OSError e"
  shows "retrieve encode env self =
           (Some (ServerStatusError ''failed to cache JSON data''),
            self\<lparr>json_obj := Snapshot b, json_mtime := time_fetch env\<rparr>, None)"
proof -
  let ?s0 = "self\<lparr>json_obj := PyNone\<rparr>"
  have l: "load_cache env ?s0 = Inr (?s0, True)"
    using enabled miss by (auto simp: load_cache_def)
  have f: "fetch encode env ?s0 =
             Inr (?s0\<lparr>json_obj := Snapshot b, json_mtime := time_fetch env\<rparr>, Some (encode a))"
    using fetched by (simp add: fetch_def)
  show ?thesis
    using fetched(3) failed by (simp add: retrieve_def l f)
qed

theorem retrieve_cache_write_failure_witness:
  "retrieve demo_encode write_fails demo_status =
     (Some (ServerStatusError ''failed to cache JSON data''),
      demo_status\<lparr>json_obj := Snapshot demo_snapshot, json_mtime := 1001\<rparr>, None)"
proof -
  have 1: "cache_timeout demo_status > 0" by (simp add: demo_status_def)
  have 2: "getmtime write_fails = Inl FileNotFoundError
           \<or> (\<exists>mtime. getmtime write_fails = Inr mtime
                \<and> \<not> time_check write_fails - mtime < cache_timeout demo_status)"
    by (simp add: write_fails_def)
  have 3: "first_fetch write_fails = Inr demo_snapshot" "second_fetch write_fails = Inr demo_snapshot"
    "demo_encode demo_snapshot \<noteq> []" "write_file write_fails = Some OSError" "is_OSError OSError"
    by (simp_all add: write_fails_def demo_encode_def)
  have 4: "time_fetch write_fails = 1001" by (simp add: write_fails_def)
  from retrieve_cache_write_failure [where encode = demo_encode, OF 1 2 3] show ?thesis
    by (simp only: 4)
qed

text \<open>
  C2 as stated fails: with caching enabled, no cache file, both fetches successful and a
  failing write, retrieve does not succeed: it raises ServerStatusError to the caller.
\<close>

theorem retrieve_cache_write_counterexample:
  "first_fetch write_fails = Inr demo_snapshot \<and> second_fetch write_fails = Inr demo_snapshot
   \<and> write_file write_fails = Some OSError
   \<and> fst (retrieve demo_encode write_fails demo_status) =
       Some (ServerStatusError ''failed to cache JSON data'')"
  by (simp add: retrieve_def load_cache_def fetch_def write_fails_def demo_status_def
      demo_encode_def)


section \<open>Properties of get_mirrorlist\<close>

lemma country_label_nonempty: "country_label lib m \<noteq> []"
  by (simp add: country_label_def)

lemma entries_plain:
  assumes "\<forall>m \<in> set ms. m ''url'' \<noteq> None"
  shows "entries lib False country acc ms = Inr (acc @ concat (map (server_line lib) ms))"
  using assms
proof (induction ms arbitrary: country acc)
  case Nil
  then show ?case by simp
next
  case (Cons m ms)
  from Cons.prems obtain u where u: "m ''url'' = Some u" by auto
  have "entries lib False country acc (m # ms)
          = entries lib False country (acc @ server_line lib m) ms"
    by (simp add: getitem_def u MIRRORLIST_ENTRY_FORMAT_def server_line_def)
  also have "\<dots> = Inr ((acc @ server_line lib m) @ concat (map (server_line lib) ms))"
    using Cons.prems by (intro Cons.IH) simp
  finally show ?case by simp
qed

lemma entries_tagged:
  assumes "\<forall>m \<in> set ms. m ''url'' \<noteq> None \<and> m ''country'' \<noteq> None \<and> m ''country_code'' \<noteq> None"
    and "country \<noteq> Some []"
  shows "entries lib True country acc ms =
           Inr (acc @ concat (map2 (\<lambda>comment m. comment @ server_line lib m)
                                 (country_comments lib country ms) ms))"
  using assms
proof (induction ms arbitrary: country acc)
  case Nil
  then show ?case by simp
next
  case (Cons m ms)
  from Cons.prems obtain u a b where
    f: "m ''url'' = Some u" "m ''country'' = Some a" "m ''country_code'' = Some b"
    by auto
  let ?c = "country_label lib m"
  let ?tag = "if Some ?c = country then []
              else (if country = None then [] else newline) @ ''# '' @ ?c @ newline"
  have c: "?c = format_val lib a @ '' ['' @ format_val lib b @ '']''"
    by (simp add: country_label_def f)
  have t: "country_tag lib country acc m = Inr (Some ?c, acc @ ?tag)"
    using Cons.prems(2) by (auto simp: country_tag_def getitem_def f c Let_def)
  have "entries lib True country acc (m # ms)
          = entries lib True (Some ?c) ((acc @ ?tag) @ server_line lib m) ms"
    by (simp add: t getitem_def f MIRRORLIST_ENTRY_FORMAT_def server_line_def)
  also have "\<dots> = Inr (((acc @ ?tag) @ server_line lib m)
                       @ concat (map2 (\<lambda>comment m. comment @ server_line lib m)
                                   (country_comments lib (Some ?c) ms) ms))"
    using Cons.prems(1) country_label_nonempty by (intro Cons.IH) auto
  finally show ?case by simp
qed

lemma entries_server_lines:
  assumes "\<forall>m \<in> set ms. m ''url'' \<noteq> None"
    and "include_country \<longrightarrow> (\<forall>m \<in> set ms. m ''country'' \<noteq> None \<and> m ''country_code'' \<noteq> None)"
  shows "entries lib include_country None acc ms = Inr (acc @ server_lines lib include_country ms)"
proof (cases include_country)
  case True
  then show ?thesis using assms by (simp add: entries_tagged server_lines_def)
next
  case False
  have "concat (map2 (\<lambda>comment m. comment @ server_line lib m) (replicate (length ms) []) ms)
          = concat (map (server_line lib) ms)"
    by (induction ms) simp_all
  then show ?thesis using False assms by (simp add: entries_plain server_lines_def)
qed

text \<open>
  C10: get_mirrorlist, on an object that holds a snapshot whose last_check parses (so that
  the banner is built) and a given sequence of records that each have the fields printed
  (url; country and country_code when country tags are asked for), returns None exactly
  when the sequence is empty, and for every non-empty sequence returns the banner followed,
  per record in the order given, by the optional country comment and one line
  Server = <url>.
\<close>

theorem get_mirrorlist_server_lines:
  assumes "json_obj self = Snapshot snap"
    and "parse_last_check lib (last_check snap) = Inr parsed"
    and "\<forall>m \<in> set ms. m ''url'' \<noteq> None"
    and "include_country \<longrightarrow> (\<forall>m \<in> set ms. m ''country'' \<noteq> None \<and> m ''country_code'' \<noteq> None)"
  shows "fst (get_mirrorlist encode env t lib self (Some (ms, None)) include_country cmd) =
           Inr (if ms = [] then None
                else Some (banner lib self (cmd_text lib cmd) parsed
                           @ server_lines lib include_country ms))"
  using assms(1,2)
  by (simp add: get_mirrorlist_def mirrorlist_text_def last_check_of_def
      entries_server_lines [OF assms(3,4)])

theorem get_mirrorlist_server_lines_witness:
  "fst (get_mirrorlist demo_encode write_fails 0 demo_textlib loaded_status
          (Some ([srv_se, srv_de], None)) True None) =
     Inr (Some (banner demo_textlib loaded_status ''?'' ''2018-11-04 10:00:00''
                @ ''# Sweden [SE]'' @ newline
                @ ''Server = se-sto.pvdata.host'' @ newline
                @ newline
                @ ''# Germany [DE]'' @ newline
                @ ''Server = de-fra.pvdata.host'' @ newline))
   \<and> fst (get_mirrorlist demo_encode write_fails 0 demo_textlib loaded_status
            (Some ([], None)) True None) = Inr None"
proof -
  have 1: "json_obj loaded_status = Snapshot demo_snapshot"
    by (simp add: loaded_status_def)
  have 2: "parse_last_check demo_textlib (last_check demo_snapshot) = Inr ''2018-11-04 10:00:00''"
    by (simp add: parse_last_check_def demo_textlib_def demo_snapshot_def)
  have 3: "\<forall>m \<in> set [srv_se, srv_de]. m ''url'' \<noteq> None"
    by (simp add: srv_se_def srv_de_def)
  have 4: "True \<longrightarrow> (\<forall>m \<in> set [srv_se, srv_de]. m ''country'' \<noteq> None \<and> m ''country_code'' \<noteq> None)"
    by (simp add: srv_se_def srv_de_def)
  have 5: "\<forall>m \<in> set ([] :: mirror list). m ''url'' \<noteq> None"
    by simp
  have l: "country_label demo_textlib srv_se = ''Sweden [SE]''"
    "country_label demo_textlib srv_de = ''Germany [DE]''"
    "server_line demo_textlib srv_se = ''Server = se-sto.pvdata.host'' @ newline"
    "server_line demo_textlib srv_de = ''Server = de-fra.pvdata.host'' @ newline"
    by (simp_all add: country_label_def server_line_def format_val_def srv_se_def srv_de_def)
  have s: "server_lines demo_textlib True [srv_se, srv_de] =
             ''# Sweden [SE]'' @ newline @ ''Server = se-sto.pvdata.host'' @ newline @ newline
             @ ''# Germany [DE]'' @ newline @ ''Server = de-fra.pvdata.host'' @ newline"
    by (simp add: server_lines_def l)
  have c: "cmd_text demo_textlib None = ''?''"
    by (simp add: cmd_text_def)
  from get_mirrorlist_server_lines
    [where encode = demo_encode and env = write_fails and t = 0 and cmd = None, OF 1 2 3 4]
    get_mirrorlist_server_lines
    [where encode = demo_encode and env = write_fails and t = 0 and cmd = None
       and include_country = True, OF 1 2 5]
  show ?thesis
    by (simp add: s c)
qed


end
